theory Spec2Isabelle
  imports Main "HOL-Library.Word" "HOL-Library.Sublist"
begin

section \<open>Data model of CarMotorControl\<close>

text \<open>
  The development embeds \<^verbatim>\<open>src/src/CarMotorControl.cpp\<close>. The class coordinates two
  motor objects (\<^verbatim>\<open>rightCarMotor\<close>, \<^verbatim>\<open>leftCarMotor\<close>) and, in the IMU build, one
  \<^verbatim>\<open>IMUData\<close> object. The motor class, the IMU class and the header with the macro
  values are not part of the file, so

  \<^item> the macros naming directions, stop modes, ramp states and turn directions are
    the constructors of datatypes (their numeric values are not used by the file);
  \<^item> every method called on a motor or on the IMU is a parameter, collected in the
    record \<open>driver\<close>; the embedding logs each such call in \<open>Trace\<close> and applies the
    driver's effect to the object;
  \<^item> the preprocessor switches and the remaining header constants are the fields of
    the record \<open>config\<close>.

  The target is the AVR Arduino: \<^verbatim>\<open>uint8_t\<close> and \<^verbatim>\<open>int8_t\<close> are \<open>8 word\<close>,
  \<^verbatim>\<open>int\<close> and \<^verbatim>\<open>unsigned int\<close> are \<open>16 word\<close> (the comment at line 729 of the source
  notes an overflow that ordinary speeds cause only in 16 bits), \<^verbatim>\<open>uint32_t\<close> is
  \<open>32 word\<close>. Signed values are read with \<open>sint\<close>. Signed overflow is undefined in C;
  the words wrap, as avr-gcc does, and the theorems that depend on signed arithmetic
  state the range in which no overflow happens.
\<close>

datatype mode = DIRECTION_FORWARD | DIRECTION_BACKWARD | MOTOR_BRAKE | MOTOR_RELEASE
  | STOP_MODE_KEEP

datatype ramp_state = MOTOR_STATE_STOPPED | MOTOR_STATE_START | MOTOR_STATE_RAMP_UP
  | MOTOR_STATE_DRIVE_SPEED | MOTOR_STATE_RAMP_DOWN

datatype turn_direction = TURN_FORWARD | TURN_BACKWARD | TURN_IN_PLACE

text \<open>The fields of a motor object that CarMotorControl.cpp reads or writes.\<close>

record motor =
  CurrentSpeed :: "8 word"
  StartSpeed :: "8 word"
  DriveSpeed :: "8 word"
  SpeedCompensation :: "8 word"
  MotorRampState :: ramp_state
  CurrentDirectionOrBrakeMode :: mode
  EncoderCount :: "16 word"

text \<open>
  The IMU object: \<open>AcceleratorForwardOffset\<close> is read as a field, the other three
  are the values its getters return. \<open>Fifo\<close> holds the samples (turn angle, speed,
  distance) not yet read, for drivers that want to model the sensor queue.
\<close>

record imu =
  AcceleratorForwardOffset :: "16 word"
  TurnAngleHalfDegree :: "16 word"
  SpeedCmPerSecond :: "16 word"
  DistanceMillimeter :: "16 word"
  Fifo :: "(16 word \<times> 16 word \<times> 16 word) list"

datatype side = RightMotor | LeftMotor

datatype call =
    Stop mode
  | SetSpeed "8 word" mode
  | ChangeSpeedCompensated "8 word"
  | SetSpeedCompensated "8 word" mode
  | StartRampDown
  | StartGoDistanceMillimeter "8 word" "16 word" mode
  | UpdateMotor
  | ResetEncoderControlValues
  | SetStartSpeed "8 word"
  | SetValuesForFixedDistanceDriving "8 word" "8 word" "8 word"

datatype imu_call = ReadCarDataFromMPU6050Fifo | ResetCarData | ResetOffsetDataAndWait

datatype event = MotorCall side call | ImuCall imu_call | Delay nat | LoopCallback

text \<open>
  The methods of the motor and IMU classes, as parameters. \<open>motor_exec c m\<close> is the
  motor after the call \<open>c\<close>; \<open>motor_update_result m\<close> is what \<^verbatim>\<open>updateMotor()\<close>
  returns when called on \<open>m\<close>; \<open>motor_elapse n m\<close> is what the unit's interrupt
  handler (the encoder tick counter) has done to \<open>m\<close> after \<open>n\<close> milliseconds of
  \<^verbatim>\<open>delay\<close>; \<open>motor_getBrakingDistanceMillimeter\<close> is the getter of the encoder build.
\<close>

record driver =
  motor_exec :: "call \<Rightarrow> motor \<Rightarrow> motor"
  motor_update_result :: "motor \<Rightarrow> bool"
  motor_elapse :: "nat \<Rightarrow> motor \<Rightarrow> motor"
  motor_getBrakingDistanceMillimeter :: "motor \<Rightarrow> 16 word"
  imu_exec :: "imu_call \<Rightarrow> imu \<Rightarrow> imu"
  imu_read_result :: "imu \<Rightarrow> bool"

text \<open>
  The build: the two preprocessor switches, the header constants the file uses, the
  default argument of \<^verbatim>\<open>stop()\<close> (declared in the header), and the conversion
  \<^verbatim>\<open>(aRotationDegrees * FactorDegreeToMillimeter) + 0.5\<close> to \<^verbatim>\<open>unsigned int\<close>, a
  floating-point computation kept as a function of the (non-negative) degrees.
\<close>

record config =
  USE_MPU6050_IMU :: bool
  USE_ENCODER_MOTOR_CONTROL :: bool
  MAX_SPEED :: "8 word"
  RAMP_DECELERATION_TIMES_2 :: "16 word"
  DELAY_TO_NEXT_IMU_DATA_MILLIS :: nat
  STOP_DEFAULT_ARGUMENT :: mode
  DegreeToMillimeter :: "16 word \<Rightarrow> 16 word"

text \<open>
  The CarMotorControl object with the two static flags of PWMDcMotor, the
  millisecond clock and the log of the calls made on the collaborators.
\<close>

record car =
  rightCarMotor :: motor
  leftCarMotor :: motor
  CarDirectionOrBrakeMode :: mode
  IMUData :: imu
  CarTurnAngleHalfDegreesFromIMU :: "16 word"
  CarSpeedCmPerSecondFromIMU :: "16 word"
  CarDistanceMillimeterFromIMU :: "16 word"
  CarRequestedRotationDegrees :: "16 word"
  CarRequestedDistanceMillimeter :: "16 word"
  MotorControlValuesHaveChanged :: bool
  SensorValuesHaveChanged :: bool
  Millis :: "32 word"
  Trace :: "event list"

section \<open>Calls on the collaborators\<close>

definition get_motor :: "side \<Rightarrow> car \<Rightarrow> motor" where
  "get_motor sd s = (case sd of RightMotor \<Rightarrow> rightCarMotor s | LeftMotor \<Rightarrow> leftCarMotor s)"

definition set_motor :: "side \<Rightarrow> motor \<Rightarrow> car \<Rightarrow> car" where
  "set_motor sd m s =
     (case sd of RightMotor \<Rightarrow> s\<lparr>rightCarMotor := m\<rparr> | LeftMotor \<Rightarrow> s\<lparr>leftCarMotor := m\<rparr>)"

text \<open>A method call on one motor: the driver's effect on that motor, and the log entry.\<close>

definition motor_call :: "driver \<Rightarrow> side \<Rightarrow> call \<Rightarrow> car \<Rightarrow> car" where
  "motor_call D sd c s =
     (set_motor sd (motor_exec D c (get_motor sd s)) s)\<lparr>Trace := Trace s @ [MotorCall sd c]\<rparr>"

definition imu_call :: "driver \<Rightarrow> imu_call \<Rightarrow> car \<Rightarrow> car" where
  "imu_call D c s = s\<lparr>IMUData := imu_exec D c (IMUData s), Trace := Trace s @ [ImuCall c]\<rparr>"

text \<open>\<^verbatim>\<open>delay(n)\<close>: the clock advances, the interrupt handlers of both units run.\<close>

definition delay :: "driver \<Rightarrow> nat \<Rightarrow> car \<Rightarrow> car" where
  "delay D n s =
     s\<lparr>rightCarMotor := motor_elapse D n (rightCarMotor s),
       leftCarMotor := motor_elapse D n (leftCarMotor s),
       Millis := Millis s + of_nat n,
       Trace := Trace s @ [Delay n]\<rparr>"

text \<open>
  \<^verbatim>\<open>if (aLoopCallback != NULL) aLoopCallback();\<close> The callback is any function of the
  object's state; it takes no time, and the log shows that it ran, not what it called.
\<close>

definition invoke_callback :: "(car \<Rightarrow> car) option \<Rightarrow> car \<Rightarrow> car" where
  "invoke_callback aLoopCallback s =
     (case aLoopCallback of
        None \<Rightarrow> s
      | Some f \<Rightarrow> (f s)\<lparr>Millis := Millis s, Trace := Trace s @ [LoopCallback]\<rparr>)"

section \<open>Speed compensation\<close>

text \<open>
  Lines 129-137. The third parameter is an \<^verbatim>\<open>int8_t\<close>; the motor's parameter is a
  \<^verbatim>\<open>uint8_t\<close>, so \<^verbatim>\<open>-aSpeedCompensationRight\<close> arrives as the word negation.
\<close>

definition setValuesForFixedDistanceDriving ::
  "driver \<Rightarrow> 8 word \<Rightarrow> 8 word \<Rightarrow> 8 word \<Rightarrow> car \<Rightarrow> car" where
  "setValuesForFixedDistanceDriving D aStartSpeed aDriveSpeed aSpeedCompensationRight s =
     (if 0 \<le> sint aSpeedCompensationRight then
        motor_call D LeftMotor (SetValuesForFixedDistanceDriving aStartSpeed aDriveSpeed 0)
          (motor_call D RightMotor
             (SetValuesForFixedDistanceDriving aStartSpeed aDriveSpeed aSpeedCompensationRight) s)
      else
        motor_call D LeftMotor
          (SetValuesForFixedDistanceDriving aStartSpeed aDriveSpeed (- aSpeedCompensationRight))
          (motor_call D RightMotor (SetValuesForFixedDistanceDriving aStartSpeed aDriveSpeed 0) s))"

text \<open>
  Lines 143-159. The comparisons are made in \<^verbatim>\<open>int\<close> after integer promotion (the
  field is unsigned, the parameter signed); the compound assignments truncate to
  \<^verbatim>\<open>uint8_t\<close>. \<^verbatim>\<open>aSpeedCompensationRight = -aSpeedCompensationRight\<close> stores into an
  \<^verbatim>\<open>int8_t\<close>, so -128 stays -128.
\<close>

definition changeSpeedCompensation :: "8 word \<Rightarrow> car \<Rightarrow> car" where
  "changeSpeedCompensation aSpeedCompensationRight s =
     (let s' =
        (if 0 < sint aSpeedCompensationRight then
           if sint aSpeedCompensationRight \<le> uint (SpeedCompensation (leftCarMotor s)) then
             s\<lparr>leftCarMotor := (leftCarMotor s)
                 \<lparr>SpeedCompensation := SpeedCompensation (leftCarMotor s) - aSpeedCompensationRight\<rparr>\<rparr>
           else
             s\<lparr>rightCarMotor := (rightCarMotor s)
                 \<lparr>SpeedCompensation := SpeedCompensation (rightCarMotor s) + aSpeedCompensationRight\<rparr>\<rparr>
         else
           let aNegated = - aSpeedCompensationRight in
           if sint aNegated \<le> uint (SpeedCompensation (rightCarMotor s)) then
             s\<lparr>rightCarMotor := (rightCarMotor s)
                 \<lparr>SpeedCompensation := SpeedCompensation (rightCarMotor s) - aNegated\<rparr>\<rparr>
           else
             s\<lparr>leftCarMotor := (leftCarMotor s)
                 \<lparr>SpeedCompensation := SpeedCompensation (leftCarMotor s) + aNegated\<rparr>\<rparr>)
      in s'\<lparr>MotorControlValuesHaveChanged := True\<rparr>)"

section \<open>Stop and direction change\<close>

text \<open>Lines 288-292.\<close>

definition stop :: "driver \<Rightarrow> mode \<Rightarrow> car \<Rightarrow> car" where
  "stop D aStopMode s =
     (let s1 = motor_call D RightMotor (Stop aStopMode) s;
          s2 = motor_call D LeftMotor (Stop aStopMode) s1
      in s2\<lparr>CarDirectionOrBrakeMode := CurrentDirectionOrBrakeMode (rightCarMotor s2)\<rparr>)"

text \<open>Lines 566-568.\<close>

definition isStopped :: "car \<Rightarrow> bool" where
  "isStopped s \<longleftrightarrow> CurrentSpeed (rightCarMotor s) = 0 \<and> CurrentSpeed (leftCarMotor s) = 0"

text \<open>
  Lines 174-198. The result is the pair of the returned flag and the new state.
  \<^verbatim>\<open>tMaxSpeed / 2\<close> is a division of \<^verbatim>\<open>uint8_t\<close> values.
\<close>

definition checkAndHandleDirectionChange :: "driver \<Rightarrow> mode \<Rightarrow> car \<Rightarrow> bool \<times> car" where
  "checkAndHandleDirectionChange D aRequestedDirection s =
     (if CarDirectionOrBrakeMode s \<noteq> aRequestedDirection then
        let tMaxSpeed = max (CurrentSpeed (rightCarMotor s)) (CurrentSpeed (leftCarMotor s));
            (tReturnValue, s1) =
              (if 0 < tMaxSpeed then
                 (True, delay D (unat (tMaxSpeed div 2)) (stop D MOTOR_BRAKE s))
               else (False, s))
        in (tReturnValue, s1\<lparr>CarDirectionOrBrakeMode := aRequestedDirection\<rparr>)
      else (False, s))"

text \<open>Lines 203-207, the two-argument \<^verbatim>\<open>setSpeed\<close>.\<close>

definition setSpeed :: "driver \<Rightarrow> 8 word \<Rightarrow> mode \<Rightarrow> car \<Rightarrow> car" where
  "setSpeed D aRequestedSpeed aRequestedDirection s =
     (let s1 = snd (checkAndHandleDirectionChange D aRequestedDirection s);
          s2 = motor_call D RightMotor (SetSpeed aRequestedSpeed aRequestedDirection) s1
      in motor_call D LeftMotor (SetSpeed aRequestedSpeed aRequestedDirection) s2)"

text \<open>Lines 212-215.\<close>

definition changeSpeedCompensated :: "driver \<Rightarrow> 8 word \<Rightarrow> car \<Rightarrow> car" where
  "changeSpeedCompensated D aRequestedSpeed s =
     motor_call D LeftMotor (ChangeSpeedCompensated aRequestedSpeed)
       (motor_call D RightMotor (ChangeSpeedCompensated aRequestedSpeed) s)"



section \<open>The update engine\<close>

text \<open>\<^verbatim>\<open>abs\<close> on a 16-bit \<^verbatim>\<open>int\<close>.\<close>

definition abs16 :: "16 word \<Rightarrow> 16 word" where
  "abs16 x = (if sint x < 0 then - x else x)"

text \<open>
  Lines 322-339. \<open>imu_read_result\<close> is the value returned by
  \<^verbatim>\<open>readCarDataFromMPU6050Fifo()\<close>, the getters are read after the call.
\<close>

definition updateIMUData :: "driver \<Rightarrow> car \<Rightarrow> car" where
  "updateIMUData D s =
     (let tHasData = imu_read_result D (IMUData s);
          s1 = imu_call D ReadCarDataFromMPU6050Fifo s
      in if tHasData \<and> AcceleratorForwardOffset (IMUData s1) \<noteq> 0 then
           let s2 = (if CarTurnAngleHalfDegreesFromIMU s1 \<noteq> TurnAngleHalfDegree (IMUData s1)
                     then s1\<lparr>CarTurnAngleHalfDegreesFromIMU := TurnAngleHalfDegree (IMUData s1),
                             SensorValuesHaveChanged := True\<rparr>
                     else s1);
               s3 = (if CarSpeedCmPerSecondFromIMU s2 \<noteq> abs16 (SpeedCmPerSecond (IMUData s2))
                     then s2\<lparr>CarSpeedCmPerSecondFromIMU := abs16 (SpeedCmPerSecond (IMUData s2)),
                             SensorValuesHaveChanged := True\<rparr>
                     else s2)
           in (if CarDistanceMillimeterFromIMU s3 \<noteq> abs16 (DistanceMillimeter (IMUData s3))
               then s3\<lparr>CarDistanceMillimeterFromIMU := abs16 (DistanceMillimeter (IMUData s3)),
                       SensorValuesHaveChanged := True\<rparr>
               else s3)
         else s1)"

text \<open>
  Lines 724-732. The product and the quotient are \<^verbatim>\<open>unsigned int\<close>; the constant
  \<^verbatim>\<open>RAMP_DECELERATION_TIMES_2 / 100\<close> is taken non-negative. A zero divisor, undefined
  in C, gives 0 here.
\<close>

definition getBrakingDistanceMillimeter :: "config \<Rightarrow> driver \<Rightarrow> car \<Rightarrow> 16 word" where
  "getBrakingDistanceMillimeter cfg D s =
     (if USE_ENCODER_MOTOR_CONTROL cfg then
        motor_getBrakingDistanceMillimeter D (rightCarMotor s)
      else
        let tCarSpeedCmPerSecond = CarSpeedCmPerSecondFromIMU s
        in (tCarSpeedCmPerSecond * tCarSpeedCmPerSecond) div (RAMP_DECELERATION_TIMES_2 cfg div 100))"

text \<open>Lines 540-550.\<close>

definition startRampDown :: "driver \<Rightarrow> car \<Rightarrow> car" where
  "startRampDown D s =
     (if isStopped s then s
      else motor_call D LeftMotor StartRampDown (motor_call D RightMotor StartRampDown s))"

text \<open>
  Lines 409-410 and 414-415: \<^verbatim>\<open>tReturnValue = rightCarMotor.updateMotor();
  tReturnValue |= leftCarMotor.updateMotor();\<close>
\<close>

definition updateBothMotors :: "driver \<Rightarrow> car \<Rightarrow> bool \<times> car" where
  "updateBothMotors D s =
     (let tRight = motor_update_result D (rightCarMotor s);
          s1 = motor_call D RightMotor UpdateMotor s;
          tLeft = motor_update_result D (leftCarMotor s1);
          s2 = motor_call D LeftMotor UpdateMotor s1
      in (tRight \<or> tLeft, s2))"

text \<open>
  Lines 378-405, the block guarded by \<^verbatim>\<open>CarRequestedDistanceMillimeter != 0\<close>, which the
  preprocessor keeps only without encoder motors. The second \<^verbatim>\<open>if\<close> is not an
  \<^verbatim>\<open>else\<close>: it runs after the stop as well, on the cleared target.
\<close>

definition handleRequestedDistance :: "config \<Rightarrow> driver \<Rightarrow> car \<Rightarrow> car" where
  "handleRequestedDistance cfg D s =
     (if CarRequestedDistanceMillimeter s \<noteq> 0 \<and> \<not> USE_ENCODER_MOTOR_CONTROL cfg
         \<and> (MotorRampState (rightCarMotor s) = MOTOR_STATE_RAMP_UP
            \<or> MotorRampState (rightCarMotor s) = MOTOR_STATE_DRIVE_SPEED
            \<or> MotorRampState (rightCarMotor s) = MOTOR_STATE_RAMP_DOWN) then
        let tBrakingDistanceMillimeter = getBrakingDistanceMillimeter cfg D s;
            s1 = (if CarRequestedDistanceMillimeter s \<le> CarDistanceMillimeterFromIMU s
                  then stop D MOTOR_BRAKE (s\<lparr>CarRequestedDistanceMillimeter := 0\<rparr>)
                  else s)
        in if MotorRampState (rightCarMotor s1) \<noteq> MOTOR_STATE_RAMP_DOWN
              \<and> CarRequestedDistanceMillimeter s1
                  \<le> CarDistanceMillimeterFromIMU s1 + tBrakingDistanceMillimeter
           then startRampDown D s1
           else s1
      else s)"

text \<open>
  Lines 354-419. \<^verbatim>\<open>TURN_OVERRUN_HALF_ANGLE\<close> is 2 and \<^verbatim>\<open>SLOW_DOWN_ANGLE * 2\<close> is 20;
  both comparisons are signed.
\<close>

definition updateMotors :: "config \<Rightarrow> driver \<Rightarrow> car \<Rightarrow> bool \<times> car" where
  "updateMotors cfg D s =
     (if USE_MPU6050_IMU cfg then
        let s1 = updateIMUData D s
        in if CarRequestedRotationDegrees s1 \<noteq> 0 then
             let tRequestedRotationDegreesForCompare = abs16 (CarRequestedRotationDegrees s1 * 2);
                 tCarTurnAngleHalfDegreesFromIMUForCompare =
                   abs16 (CarTurnAngleHalfDegreesFromIMU s1)
             in if sint tRequestedRotationDegreesForCompare
                     \<le> sint (tCarTurnAngleHalfDegreesFromIMUForCompare + 2) then
                  (False, (stop D MOTOR_BRAKE s1)\<lparr>CarRequestedRotationDegrees := 0\<rparr>)
                else if sint tRequestedRotationDegreesForCompare
                     \<le> sint (tCarTurnAngleHalfDegreesFromIMUForCompare + 20) then
                  (True, changeSpeedCompensated D (StartSpeed (rightCarMotor s1)) s1)
                else (True, s1)
           else updateBothMotors D (handleRequestedDistance cfg D s1)
      else updateBothMotors D s)"

text \<open>Lines 424-429, \<^verbatim>\<open>updateMotors(aLoopCallback)\<close>.\<close>

definition updateMotorsWithCallback ::
  "config \<Rightarrow> driver \<Rightarrow> (car \<Rightarrow> car) option \<Rightarrow> car \<Rightarrow> bool \<times> car" where
  "updateMotorsWithCallback cfg D aLoopCallback s =
     updateMotors cfg D (invoke_callback aLoopCallback s)"

text \<open>
  Lines 555-560. The loop runs as long as the engine reports movement, so it need not
  end: \<open>None\<close> is the run that never returns.
\<close>

partial_function (option) waitUntilStopped ::
  "config \<Rightarrow> driver \<Rightarrow> (car \<Rightarrow> car) option \<Rightarrow> car \<Rightarrow> car option" where
  "waitUntilStopped cfg D aLoopCallback s =
     (if fst (updateMotorsWithCallback cfg D aLoopCallback s) then
        waitUntilStopped cfg D aLoopCallback (snd (updateMotorsWithCallback cfg D aLoopCallback s))
      else
        Some ((snd (updateMotorsWithCallback cfg D aLoopCallback s))
          \<lparr>CarDirectionOrBrakeMode :=
             CurrentDirectionOrBrakeMode
               (rightCarMotor (snd (updateMotorsWithCallback cfg D aLoopCallback s)))\<rparr>))"

declare waitUntilStopped.simps [code]

section \<open>Rotation\<close>

text \<open>
  Lines 584-687. \<open>tRightMotorIfPositiveTurn\<close> and \<open>tLeftMotorIfPositiveTurn\<close> are
  the two pointers, here the side they point to. Any turn direction other than
  \<^verbatim>\<open>TURN_FORWARD\<close> and \<^verbatim>\<open>TURN_BACKWARD\<close> takes the last branch.
\<close>

definition startRotate ::
  "config \<Rightarrow> driver \<Rightarrow> 16 word \<Rightarrow> turn_direction \<Rightarrow> bool \<Rightarrow> car \<Rightarrow> car" where
  "startRotate cfg D aRotationDegrees aTurnDirection aUseSlowSpeed s =
     (let s1 = (if USE_MPU6050_IMU cfg
                then (imu_call D ResetCarData s)\<lparr>CarRequestedRotationDegrees := aRotationDegrees\<rparr>
                else s);
          tRotationDegrees = (if 0 \<le> sint aRotationDegrees then aRotationDegrees
                              else - aRotationDegrees);
          tRightMotorIfPositiveTurn = (if 0 \<le> sint aRotationDegrees then RightMotor
                                       else LeftMotor);
          tLeftMotorIfPositiveTurn = (if 0 \<le> sint aRotationDegrees then LeftMotor
                                      else RightMotor);
          tDistanceMillimeter = (if USE_MPU6050_IMU cfg then 2000
                                 else DegreeToMillimeter cfg tRotationDegrees);
          tDistanceMillimeterRight =
            (case aTurnDirection of TURN_FORWARD \<Rightarrow> tDistanceMillimeter
             | TURN_BACKWARD \<Rightarrow> 0 | TURN_IN_PLACE \<Rightarrow> tDistanceMillimeter div 2);
          tDistanceMillimeterLeft =
            (case aTurnDirection of TURN_FORWARD \<Rightarrow> 0
             | TURN_BACKWARD \<Rightarrow> tDistanceMillimeter | TURN_IN_PLACE \<Rightarrow> tDistanceMillimeter div 2);
          tStartRight = StartSpeed (get_motor tRightMotorIfPositiveTurn s1);
          tStartLeft = StartSpeed (get_motor tLeftMotorIfPositiveTurn s1);
          tTurnSpeedRight = (if aUseSlowSpeed \<and> tStartRight < 160
                             then tStartRight + tStartRight div 2
                             else DriveSpeed (get_motor tRightMotorIfPositiveTurn s1));
          tTurnSpeedLeft = (if aUseSlowSpeed \<and> tStartLeft < 160
                            then tStartLeft + tStartLeft div 2
                            else DriveSpeed (get_motor tLeftMotorIfPositiveTurn s1))
      in if USE_MPU6050_IMU cfg then
           let s2 = (if 0 < tDistanceMillimeterRight
                     then motor_call D tRightMotorIfPositiveTurn
                            (SetSpeedCompensated tTurnSpeedRight DIRECTION_FORWARD) s1
                     else s1)
           in (if 0 < tDistanceMillimeterLeft
               then motor_call D tLeftMotorIfPositiveTurn
                      (SetSpeedCompensated tTurnSpeedLeft DIRECTION_BACKWARD) s2
               else s2)
         else
           motor_call D tLeftMotorIfPositiveTurn
             (StartGoDistanceMillimeter tTurnSpeedLeft tDistanceMillimeterLeft DIRECTION_BACKWARD)
             (motor_call D tRightMotorIfPositiveTurn
                (StartGoDistanceMillimeter tTurnSpeedRight tDistanceMillimeterRight
                   DIRECTION_FORWARD) s1))"

text \<open>Lines 696-701, the blocking \<^verbatim>\<open>rotate\<close>; \<open>None\<close> when the wait never ends.\<close>

definition rotate_car ::
  "config \<Rightarrow> driver \<Rightarrow> 16 word \<Rightarrow> turn_direction \<Rightarrow> bool \<Rightarrow> (car \<Rightarrow> car) option
     \<Rightarrow> car \<Rightarrow> car option" where
  "rotate_car cfg D aRotationDegrees aTurnDirection aUseSlowSpeed aLoopCallback s =
     (if aRotationDegrees \<noteq> 0 then
        waitUntilStopped cfg D aLoopCallback
          (startRotate cfg D aRotationDegrees aTurnDirection aUseSlowSpeed s)
      else Some s)"

section \<open>Calibration\<close>


text \<open>
  Lines 767-782, the active delay. The result is \<open>Some (True, s)\<close> when the loop saw
  the car stopped (the \<^verbatim>\<open>return\<close> at line 774), \<open>Some (False, s)\<close> when more than 200
  ms have passed, and \<open>None\<close> when it never ends. The subtraction is \<^verbatim>\<open>uint32_t\<close>.
\<close>

partial_function (option) calibrate_wait ::
  "config \<Rightarrow> driver \<Rightarrow> (car \<Rightarrow> car) option \<Rightarrow> 32 word \<Rightarrow> car \<Rightarrow> (bool \<times> car) option" where
  "calibrate_wait cfg D aLoopCallback tStartMillis s =
     (if isStopped (invoke_callback aLoopCallback s) then
        Some (True, invoke_callback aLoopCallback s)
      else if Millis (if USE_ENCODER_MOTOR_CONTROL cfg
                      then delay D 10 (invoke_callback aLoopCallback s)
                      else updateIMUData D (delay D (DELAY_TO_NEXT_IMU_DATA_MILLIS cfg)
                             (invoke_callback aLoopCallback s)))
                - tStartMillis \<le> 200 then
        calibrate_wait cfg D aLoopCallback tStartMillis
          (if USE_ENCODER_MOTOR_CONTROL cfg
           then delay D 10 (invoke_callback aLoopCallback s)
           else updateIMUData D (delay D (DELAY_TO_NEXT_IMU_DATA_MILLIS cfg)
                  (invoke_callback aLoopCallback s)))
      else
        Some (False,
          (if USE_ENCODER_MOTOR_CONTROL cfg
           then delay D 10 (invoke_callback aLoopCallback s)
           else updateIMUData D (delay D (DELAY_TO_NEXT_IMU_DATA_MILLIS cfg)
                  (invoke_callback aLoopCallback s)))))"

declare calibrate_wait.simps [code]





section \<open>A sample build, driver and car\<close>

text \<open>
  Modelled from the spec: the Actuator Unit and the inertial Motion Feedback Source,
  whose classes are not in the source file. The unit follows sections 3, 4.4 and 6 of
  the specification: a stop leaves the speed at 0 and the ramp state at stopped,
  \<open>set_speed\<close> stores speed and direction, the compensated variants add the unit's
  own compensation, the setters store their arguments, \<open>update\<close> moves along
  start, ramp-up, drive speed, ramp-down, stopped and reports whether the unit still
  moves. The wheel of the sample unit turns from speed 27 on and then gives one encoder
  tick per 10 ms. The IMU's \<open>poll\<close> consumes one queued sample. The theorems
  below hold for every driver; this one is the concrete instance at which they are
  evaluated.
\<close>

definition sample_motor_exec :: "call \<Rightarrow> motor \<Rightarrow> motor" where
  "sample_motor_exec c m =
     (case c of
        Stop aStopMode \<Rightarrow>
          m\<lparr>CurrentSpeed := 0, MotorRampState := MOTOR_STATE_STOPPED,
            CurrentDirectionOrBrakeMode :=
              (if aStopMode = STOP_MODE_KEEP then MOTOR_BRAKE else aStopMode)\<rparr>
      | SetSpeed v d \<Rightarrow> m\<lparr>CurrentSpeed := v, CurrentDirectionOrBrakeMode := d\<rparr>
      | ChangeSpeedCompensated v \<Rightarrow> m\<lparr>CurrentSpeed := v + SpeedCompensation m\<rparr>
      | SetSpeedCompensated v d \<Rightarrow>
          m\<lparr>CurrentSpeed := v + SpeedCompensation m, CurrentDirectionOrBrakeMode := d\<rparr>
      | StartRampDown \<Rightarrow> m\<lparr>MotorRampState := MOTOR_STATE_RAMP_DOWN\<rparr>
      | StartGoDistanceMillimeter v dist d \<Rightarrow>
          (if dist = 0 then m
           else m\<lparr>CurrentSpeed := v, MotorRampState := MOTOR_STATE_START,
                  CurrentDirectionOrBrakeMode := d\<rparr>)
      | UpdateMotor \<Rightarrow>
          (case MotorRampState m of
             MOTOR_STATE_START \<Rightarrow> m\<lparr>MotorRampState := MOTOR_STATE_RAMP_UP\<rparr>
           | MOTOR_STATE_RAMP_UP \<Rightarrow>
               m\<lparr>CurrentSpeed := DriveSpeed m, MotorRampState := MOTOR_STATE_DRIVE_SPEED\<rparr>
           | MOTOR_STATE_RAMP_DOWN \<Rightarrow>
               m\<lparr>CurrentSpeed := 0, MotorRampState := MOTOR_STATE_STOPPED\<rparr>
           | _ \<Rightarrow> m)
      | ResetEncoderControlValues \<Rightarrow> m\<lparr>EncoderCount := 0\<rparr>
      | SetStartSpeed v \<Rightarrow> m\<lparr>StartSpeed := v\<rparr>
      | SetValuesForFixedDistanceDriving a b c \<Rightarrow>
          m\<lparr>StartSpeed := a, DriveSpeed := b, SpeedCompensation := c\<rparr>)"

definition sample_imu_exec :: "imu_call \<Rightarrow> imu \<Rightarrow> imu" where
  "sample_imu_exec c i =
     (case c of
        ReadCarDataFromMPU6050Fifo \<Rightarrow>
          (case Fifo i of
             [] \<Rightarrow> i
           | (a, v, d) # rest \<Rightarrow>
               i\<lparr>TurnAngleHalfDegree := a, SpeedCmPerSecond := v, DistanceMillimeter := d,
                 Fifo := rest\<rparr>)
      | ResetCarData \<Rightarrow> i\<lparr>TurnAngleHalfDegree := 0, SpeedCmPerSecond := 0, DistanceMillimeter := 0\<rparr>
      | ResetOffsetDataAndWait \<Rightarrow> i)"

definition sample_driver :: driver where
  "sample_driver =
     \<lparr>motor_exec = sample_motor_exec,
      motor_update_result = (\<lambda>m. CurrentSpeed (sample_motor_exec UpdateMotor m) \<noteq> 0),
      motor_elapse = (\<lambda>n m. if 27 \<le> CurrentSpeed m
                              then m\<lparr>EncoderCount := EncoderCount m + of_nat (n div 10)\<rparr> else m),
      motor_getBrakingDistanceMillimeter = (\<lambda>m. 0),
      imu_exec = sample_imu_exec,
      imu_read_result = (\<lambda>i. Fifo i \<noteq> [])\<rparr>"

definition sample_config :: "bool \<Rightarrow> bool \<Rightarrow> config" where
  "sample_config aUseIMU aUseEncoder =
     \<lparr>USE_MPU6050_IMU = aUseIMU, USE_ENCODER_MOTOR_CONTROL = aUseEncoder, MAX_SPEED = 255,
      RAMP_DECELERATION_TIMES_2 = 3500, DELAY_TO_NEXT_IMU_DATA_MILLIS = 10,
      STOP_DEFAULT_ARGUMENT = STOP_MODE_KEEP, DegreeToMillimeter = (\<lambda>d. 2 * d)\<rparr>"

definition sample_motor :: motor where
  "sample_motor =
     \<lparr>CurrentSpeed = 0, StartSpeed = 40, DriveSpeed = 100, SpeedCompensation = 0,
      MotorRampState = MOTOR_STATE_STOPPED, CurrentDirectionOrBrakeMode = MOTOR_BRAKE,
      EncoderCount = 0\<rparr>"

definition sample_imu :: imu where
  "sample_imu =
     \<lparr>AcceleratorForwardOffset = 1, TurnAngleHalfDegree = 0, SpeedCmPerSecond = 0,
      DistanceMillimeter = 0, Fifo = []\<rparr>"

text \<open>The car at rest, nothing pending, empty log.\<close>

definition sample_car :: car where
  "sample_car =
     \<lparr>rightCarMotor = sample_motor, leftCarMotor = sample_motor,
      CarDirectionOrBrakeMode = MOTOR_BRAKE, IMUData = sample_imu,
      CarTurnAngleHalfDegreesFromIMU = 0, CarSpeedCmPerSecondFromIMU = 0,
      CarDistanceMillimeterFromIMU = 0, CarRequestedRotationDegrees = 0,
      CarRequestedDistanceMillimeter = 0, MotorControlValuesHaveChanged = False,
      SensorValuesHaveChanged = False, Millis = 0, Trace = []\<rparr>"

text \<open>The car driving forward with both units at the given speed and ramp state.\<close>

definition driving_car :: "8 word \<Rightarrow> ramp_state \<Rightarrow> car" where
  "driving_car v st =
     sample_car
       \<lparr>rightCarMotor := sample_motor\<lparr>CurrentSpeed := v, MotorRampState := st,
                          CurrentDirectionOrBrakeMode := DIRECTION_FORWARD\<rparr>,
        leftCarMotor := sample_motor\<lparr>CurrentSpeed := v, MotorRampState := st,
                         CurrentDirectionOrBrakeMode := DIRECTION_FORWARD\<rparr>,
        CarDirectionOrBrakeMode := DIRECTION_FORWARD\<rparr>"

text \<open>The car with the given speed compensations (left, right), otherwise at rest.\<close>

definition compensated_car :: "8 word \<Rightarrow> 8 word \<Rightarrow> car" where
  "compensated_car aLeft aRight =
     sample_car
       \<lparr>rightCarMotor := sample_motor\<lparr>SpeedCompensation := aRight\<rparr>,
        leftCarMotor := sample_motor\<lparr>SpeedCompensation := aLeft\<rparr>\<rparr>"

text \<open>
  The car at rest with a rotation of the given degrees pending and one IMU sample with
  the given turn angle (in half degrees) waiting to be read.
\<close>

definition rotating_car :: "16 word \<Rightarrow> 16 word \<Rightarrow> car" where
  "rotating_car aDegrees aHalfDegrees =
     sample_car
       \<lparr>IMUData := sample_imu\<lparr>Fifo := [(aHalfDegrees, 0, 0)]\<rparr>,
        CarRequestedRotationDegrees := aDegrees\<rparr>"


text \<open>
  The car driving forward at speed 100 in the given ramp state, with a distance target
  pending and the given cached IMU distance and speed; no new IMU sample.
\<close>

definition distance_car :: "ramp_state \<Rightarrow> 16 word \<Rightarrow> 16 word \<Rightarrow> 16 word \<Rightarrow> car" where
  "distance_car st aTarget aDistance aSpeed =
     (driving_car 100 st)
       \<lparr>CarSpeedCmPerSecondFromIMU := aSpeed,
        CarDistanceMillimeterFromIMU := aDistance,
        CarRequestedDistanceMillimeter := aTarget\<rparr>"




section \<open>Notions used to state the properties\<close>



text \<open>
  The compensation, as a number, of the unit a delta lowers when it can (the left
  unit for a positive delta, the right unit otherwise), and of the unit it raises
  otherwise.
\<close>

definition lowered_compensation :: "8 word \<Rightarrow> car \<Rightarrow> int" where
  "lowered_compensation d s =
     uint (SpeedCompensation (if 0 < sint d then leftCarMotor s else rightCarMotor s))"

definition raised_compensation :: "8 word \<Rightarrow> car \<Rightarrow> int" where
  "raised_compensation d s =
     uint (SpeedCompensation (if 0 < sint d then rightCarMotor s else leftCarMotor s))"

text \<open>At most one unit has a nonzero compensation.\<close>

definition one_sided :: "car \<Rightarrow> bool" where
  "one_sided s \<longleftrightarrow>
     SpeedCompensation (rightCarMotor s) = 0 \<or> SpeedCompensation (leftCarMotor s) = 0"

text \<open>The two operations that write the compensation, and runs of them.\<close>

datatype compensation_op = SetValues "8 word" "8 word" "8 word" | ChangeCompensation "8 word"

fun apply_compensation_op :: "driver \<Rightarrow> compensation_op \<Rightarrow> car \<Rightarrow> car" where
  "apply_compensation_op D (SetValues a b c) s = setValuesForFixedDistanceDriving D a b c s"
| "apply_compensation_op D (ChangeCompensation d) s = changeSpeedCompensation d s"

fun run_compensation_ops :: "driver \<Rightarrow> compensation_op list \<Rightarrow> car \<Rightarrow> car" where
  "run_compensation_ops D [] s = s"
| "run_compensation_ops D (x # xs) s = run_compensation_ops D xs (apply_compensation_op D x s)"

text \<open>
  A change is a plain transfer when the delta is not -128 and the unit it lowers has
  either nothing or at least the magnitude of the delta. \<open>transfers_only\<close> holds of
  a run in which every change is one, judged in the state it is applied to.
\<close>

definition plain_transfer :: "8 word \<Rightarrow> car \<Rightarrow> bool" where
  "plain_transfer d s \<longleftrightarrow>
     sint d \<noteq> - 128 \<and> (lowered_compensation d s = 0 \<or> \<bar>sint d\<bar> \<le> lowered_compensation d s)"

fun transfers_only :: "driver \<Rightarrow> compensation_op list \<Rightarrow> car \<Rightarrow> bool" where
  "transfers_only D [] s \<longleftrightarrow> True"
| "transfers_only D (x # xs) s \<longleftrightarrow>
     (case x of SetValues a b c \<Rightarrow> True | ChangeCompensation d \<Rightarrow> plain_transfer d s)
     \<and> transfers_only D xs (apply_compensation_op D x s)"

text \<open>
  The ramp states of the right unit in which the engine looks at a pending distance
  (line 380).
\<close>

definition right_unit_under_way :: "car \<Rightarrow> bool" where
  "right_unit_under_way s \<longleftrightarrow>
     MotorRampState (rightCarMotor s) = MOTOR_STATE_RAMP_UP
     \<or> MotorRampState (rightCarMotor s) = MOTOR_STATE_DRIVE_SPEED
     \<or> MotorRampState (rightCarMotor s) = MOTOR_STATE_RAMP_DOWN"

text \<open>
  The speed \<^verbatim>\<open>startRotate\<close> turns a unit with (lines 653-663): one and a half times
  its start speed when the slow speed is asked for and the start speed is below 160,
  its drive speed otherwise.
\<close>

definition turn_speed :: "bool \<Rightarrow> motor \<Rightarrow> 8 word" where
  "turn_speed aUseSlowSpeed m =
     (if aUseSlowSpeed \<and> StartSpeed m < 160 then StartSpeed m + StartSpeed m div 2
      else DriveSpeed m)"





section \<open>The log and the clock\<close>

lemma Trace_motor_call: "Trace (motor_call D sd c s) = Trace s @ [MotorCall sd c]"
  by (simp add: motor_call_def)

lemma Millis_motor_call: "Millis (motor_call D sd c s) = Millis s"
  by (cases sd) (simp_all add: motor_call_def set_motor_def)

lemma Trace_stop:
  "Trace (stop D md s) = Trace s @ [MotorCall RightMotor (Stop md), MotorCall LeftMotor (Stop md)]"
  by (simp add: stop_def Let_def Trace_motor_call)

lemma Millis_stop: "Millis (stop D md s) = Millis s"
  by (simp add: stop_def Let_def Millis_motor_call)

lemma rightCarMotor_motor_call_Left:
  "rightCarMotor (motor_call D LeftMotor c s) = rightCarMotor s"
  by (simp add: motor_call_def set_motor_def)

lemma leftCarMotor_motor_call_Right:
  "leftCarMotor (motor_call D RightMotor c s) = leftCarMotor s"
  by (simp add: motor_call_def set_motor_def)

lemma rightCarMotor_motor_call_Right:
  "rightCarMotor (motor_call D RightMotor c s) = motor_exec D c (rightCarMotor s)"
  by (simp add: motor_call_def set_motor_def get_motor_def)

lemma leftCarMotor_motor_call_Left:
  "leftCarMotor (motor_call D LeftMotor c s) = motor_exec D c (leftCarMotor s)"
  by (simp add: motor_call_def set_motor_def get_motor_def)

lemma CarDirectionOrBrakeMode_motor_call:
  "CarDirectionOrBrakeMode (motor_call D sd c s) = CarDirectionOrBrakeMode s"
  by (cases sd) (simp_all add: motor_call_def set_motor_def)

lemmas motor_call_simps = Trace_motor_call Millis_motor_call rightCarMotor_motor_call_Left
  leftCarMotor_motor_call_Right rightCarMotor_motor_call_Right leftCarMotor_motor_call_Left
  CarDirectionOrBrakeMode_motor_call

lemma motors_stop:
  "rightCarMotor (stop D md s) = motor_exec D (Stop md) (rightCarMotor s)"
  "leftCarMotor (stop D md s) = motor_exec D (Stop md) (leftCarMotor s)"
  by (simp_all add: stop_def Let_def motor_call_simps)

section \<open>Direction change (lines 174-198)\<close>

lemma max_speed_pos:
  "0 < max (CurrentSpeed (rightCarMotor s)) (CurrentSpeed (leftCarMotor s)) \<longleftrightarrow> \<not> isStopped s"
  by (auto simp: isStopped_def max_def word_gt_0)

lemma direction_change_same:
  "aRequestedDirection = CarDirectionOrBrakeMode s \<Longrightarrow>
   checkAndHandleDirectionChange D aRequestedDirection s = (False, s)"
  by (simp add: checkAndHandleDirectionChange_def)

lemma direction_change_stationary:
  "aRequestedDirection \<noteq> CarDirectionOrBrakeMode s \<Longrightarrow> isStopped s \<Longrightarrow>
   checkAndHandleDirectionChange D aRequestedDirection s =
     (False, s\<lparr>CarDirectionOrBrakeMode := aRequestedDirection\<rparr>)"
  using max_speed_pos [of s]
  by (simp add: checkAndHandleDirectionChange_def Let_def)

lemma direction_change_moving:
  "aRequestedDirection \<noteq> CarDirectionOrBrakeMode s \<Longrightarrow> \<not> isStopped s \<Longrightarrow>
   checkAndHandleDirectionChange D aRequestedDirection s =
     (True,
      (delay D (unat (max (CurrentSpeed (rightCarMotor s)) (CurrentSpeed (leftCarMotor s)) div 2))
         (stop D MOTOR_BRAKE s))\<lparr>CarDirectionOrBrakeMode := aRequestedDirection\<rparr>)"
  using max_speed_pos [of s]
  by (simp add: checkAndHandleDirectionChange_def Let_def)

lemma unat_of_nat_unat8: "unat (word_of_nat (unat (x :: 8 word)) :: 32 word) = unat x"
proof -
  have "unat x < 2 ^ 8"
    using unsigned_less [of x, where 'a = nat] by simp
  then have "unat x < 2 ^ 32"
    by simp
  then show ?thesis
    by (simp add: unsigned_ucast_eq take_bit_nat_eq_self)
qed

lemma direction_change_wait:
  assumes "aRequestedDirection \<noteq> CarDirectionOrBrakeMode s" and "\<not> isStopped s"
  shows "unat (Millis (snd (checkAndHandleDirectionChange D aRequestedDirection s)) - Millis s)
         = unat (max (CurrentSpeed (rightCarMotor s)) (CurrentSpeed (leftCarMotor s))) div 2"
proof -
  let ?m = "max (CurrentSpeed (rightCarMotor s)) (CurrentSpeed (leftCarMotor s))"
  have "Millis (snd (checkAndHandleDirectionChange D aRequestedDirection s)) - Millis s
      = word_of_nat (unat (?m div 2))"
    using assms by (simp add: direction_change_moving delay_def Millis_stop)
  then have "unat (Millis (snd (checkAndHandleDirectionChange D aRequestedDirection s)) - Millis s)
      = unat (word_of_nat (unat (?m div 2)) :: 32 word)"
    by (simp only:)
  also have "\<dots> = unat (?m div 2)"
    by (rule unat_of_nat_unat8)
  also have "\<dots> = unat ?m div 2"
    by (simp add: unat_div)
  finally show ?thesis .
qed

text \<open>
  C5. A direction-change request with the commanded mode changes nothing and returns
  false. With another mode and both units at speed 0 it only writes the commanded mode
  and returns false. With another mode and a unit still running it brake-stops both
  units (right, then left), waits half of the higher current speed in milliseconds, then
  writes the commanded mode, and returns true: each unit is left as the driver's brake
  stop followed by that wait leaves it, the clock has advanced by the wait, and nothing
  else of the state has changed. The time waited does not decrease when the higher of
  the two speeds grows.
\<close>

theorem direction_change_arbitration:
  "(aRequestedDirection = CarDirectionOrBrakeMode s \<longrightarrow>
      checkAndHandleDirectionChange D aRequestedDirection s = (False, s))
   \<and> (aRequestedDirection \<noteq> CarDirectionOrBrakeMode s \<and> isStopped s \<longrightarrow>
      checkAndHandleDirectionChange D aRequestedDirection s =
        (False, s\<lparr>CarDirectionOrBrakeMode := aRequestedDirection\<rparr>))
   \<and> (aRequestedDirection \<noteq> CarDirectionOrBrakeMode s \<and> \<not> isStopped s \<longrightarrow>
      checkAndHandleDirectionChange D aRequestedDirection s =
        (True,
         s\<lparr>rightCarMotor :=
             motor_elapse D
               (unat (max (CurrentSpeed (rightCarMotor s)) (CurrentSpeed (leftCarMotor s)) div 2))
               (motor_exec D (Stop MOTOR_BRAKE) (rightCarMotor s)),
           leftCarMotor :=
             motor_elapse D
               (unat (max (CurrentSpeed (rightCarMotor s)) (CurrentSpeed (leftCarMotor s)) div 2))
               (motor_exec D (Stop MOTOR_BRAKE) (leftCarMotor s)),
           CarDirectionOrBrakeMode := aRequestedDirection,
           Millis := Millis s + word_of_nat
               (unat (max (CurrentSpeed (rightCarMotor s)) (CurrentSpeed (leftCarMotor s)) div 2)),
           Trace := Trace s @
             [MotorCall RightMotor (Stop MOTOR_BRAKE), MotorCall LeftMotor (Stop MOTOR_BRAKE),
              Delay (unat (max (CurrentSpeed (rightCarMotor s)) (CurrentSpeed (leftCarMotor s))
                       div 2))]\<rparr>)
      \<and> rightCarMotor (snd (checkAndHandleDirectionChange D aRequestedDirection s)) =
          motor_elapse D
            (unat (max (CurrentSpeed (rightCarMotor s)) (CurrentSpeed (leftCarMotor s)) div 2))
            (motor_exec D (Stop MOTOR_BRAKE) (rightCarMotor s))
      \<and> leftCarMotor (snd (checkAndHandleDirectionChange D aRequestedDirection s)) =
          motor_elapse D
            (unat (max (CurrentSpeed (rightCarMotor s)) (CurrentSpeed (leftCarMotor s)) div 2))
            (motor_exec D (Stop MOTOR_BRAKE) (leftCarMotor s))
      \<and> CarDirectionOrBrakeMode (snd (checkAndHandleDirectionChange D aRequestedDirection s)) =
          aRequestedDirection
      \<and> Trace (snd (checkAndHandleDirectionChange D aRequestedDirection s)) =
          Trace s @ [MotorCall RightMotor (Stop MOTOR_BRAKE), MotorCall LeftMotor (Stop MOTOR_BRAKE),
            Delay (unat (max (CurrentSpeed (rightCarMotor s)) (CurrentSpeed (leftCarMotor s))
                     div 2))])
   \<and> (aRequestedDirection \<noteq> CarDirectionOrBrakeMode s \<and> \<not> isStopped s
      \<and> aOtherDirection \<noteq> CarDirectionOrBrakeMode t \<and> \<not> isStopped t
      \<and> max (CurrentSpeed (rightCarMotor s)) (CurrentSpeed (leftCarMotor s))
          \<le> max (CurrentSpeed (rightCarMotor t)) (CurrentSpeed (leftCarMotor t)) \<longrightarrow>
      unat (Millis (snd (checkAndHandleDirectionChange D aRequestedDirection s)) - Millis s)
        \<le> unat (Millis (snd (checkAndHandleDirectionChange D aOtherDirection t))
                 - Millis t))"
proof (intro conjI impI)
  assume "aRequestedDirection = CarDirectionOrBrakeMode s"
  then show "checkAndHandleDirectionChange D aRequestedDirection s = (False, s)"
    by (rule direction_change_same)
next
  assume "aRequestedDirection \<noteq> CarDirectionOrBrakeMode s \<and> isStopped s"
  then show "checkAndHandleDirectionChange D aRequestedDirection s =
        (False, s\<lparr>CarDirectionOrBrakeMode := aRequestedDirection\<rparr>)"
    by (simp add: direction_change_stationary)
next
  assume a: "aRequestedDirection \<noteq> CarDirectionOrBrakeMode s \<and> \<not> isStopped s"
  let ?n = "unat (max (CurrentSpeed (rightCarMotor s)) (CurrentSpeed (leftCarMotor s)) div 2)"
  from a have r: "checkAndHandleDirectionChange D aRequestedDirection s =
        (True, (delay D ?n (stop D MOTOR_BRAKE s))\<lparr>CarDirectionOrBrakeMode := aRequestedDirection\<rparr>)"
    by (simp add: direction_change_moving)
  show "checkAndHandleDirectionChange D aRequestedDirection s =
        (True,
         s\<lparr>rightCarMotor := motor_elapse D ?n (motor_exec D (Stop MOTOR_BRAKE) (rightCarMotor s)),
           leftCarMotor := motor_elapse D ?n (motor_exec D (Stop MOTOR_BRAKE) (leftCarMotor s)),
           CarDirectionOrBrakeMode := aRequestedDirection,
           Millis := Millis s + word_of_nat ?n,
           Trace := Trace s @
             [MotorCall RightMotor (Stop MOTOR_BRAKE), MotorCall LeftMotor (Stop MOTOR_BRAKE),
              Delay ?n]\<rparr>)"
    unfolding r
    by (simp add: delay_def stop_def motor_call_def get_motor_def set_motor_def Let_def)
  show "rightCarMotor (snd (checkAndHandleDirectionChange D aRequestedDirection s)) =
          motor_elapse D ?n (motor_exec D (Stop MOTOR_BRAKE) (rightCarMotor s))"
    unfolding r by (simp add: delay_def motors_stop)
  show "leftCarMotor (snd (checkAndHandleDirectionChange D aRequestedDirection s)) =
          motor_elapse D ?n (motor_exec D (Stop MOTOR_BRAKE) (leftCarMotor s))"
    unfolding r by (simp add: delay_def motors_stop)
  show "CarDirectionOrBrakeMode (snd (checkAndHandleDirectionChange D aRequestedDirection s)) =
          aRequestedDirection"
    unfolding r by simp
  show "Trace (snd (checkAndHandleDirectionChange D aRequestedDirection s)) =
          Trace s @ [MotorCall RightMotor (Stop MOTOR_BRAKE), MotorCall LeftMotor (Stop MOTOR_BRAKE),
            Delay ?n]"
    unfolding r by (simp add: delay_def Trace_stop)
next
  assume a: "aRequestedDirection \<noteq> CarDirectionOrBrakeMode s \<and> \<not> isStopped s
      \<and> aOtherDirection \<noteq> CarDirectionOrBrakeMode t \<and> \<not> isStopped t
      \<and> max (CurrentSpeed (rightCarMotor s)) (CurrentSpeed (leftCarMotor s))
          \<le> max (CurrentSpeed (rightCarMotor t)) (CurrentSpeed (leftCarMotor t))"
  then have "unat (max (CurrentSpeed (rightCarMotor s)) (CurrentSpeed (leftCarMotor s)))
      \<le> unat (max (CurrentSpeed (rightCarMotor t)) (CurrentSpeed (leftCarMotor t)))"
    by (simp add: word_le_nat_alt)
  then have "unat (max (CurrentSpeed (rightCarMotor s)) (CurrentSpeed (leftCarMotor s))) div 2
      \<le> unat (max (CurrentSpeed (rightCarMotor t)) (CurrentSpeed (leftCarMotor t))) div 2"
    by (rule div_le_mono)
  with a show "unat (Millis (snd (checkAndHandleDirectionChange D aRequestedDirection s)) - Millis s)
        \<le> unat (Millis (snd (checkAndHandleDirectionChange D aOtherDirection t))
                 - Millis t)"
    by (simp add: direction_change_wait)
qed

text \<open>
  The cases at the sample car: forward asked for while driving forward; forward asked for
  at rest in brake mode; backward asked for while driving forward at 100 (both units
  braked to speed 0, wait 50 ms) and at 200.
\<close>

theorem direction_change_arbitration_witness:
  "checkAndHandleDirectionChange sample_driver DIRECTION_FORWARD
       (driving_car 100 MOTOR_STATE_DRIVE_SPEED)
     = (False, driving_car 100 MOTOR_STATE_DRIVE_SPEED)
   \<and> checkAndHandleDirectionChange sample_driver DIRECTION_FORWARD sample_car
     = (False, sample_car\<lparr>CarDirectionOrBrakeMode := DIRECTION_FORWARD\<rparr>)
   \<and> fst (checkAndHandleDirectionChange sample_driver DIRECTION_BACKWARD
       (driving_car 100 MOTOR_STATE_DRIVE_SPEED))
   \<and> Trace (snd (checkAndHandleDirectionChange sample_driver DIRECTION_BACKWARD
       (driving_car 100 MOTOR_STATE_DRIVE_SPEED)))
     = [MotorCall RightMotor (Stop MOTOR_BRAKE), MotorCall LeftMotor (Stop MOTOR_BRAKE), Delay 50]
   \<and> rightCarMotor (snd (checkAndHandleDirectionChange sample_driver DIRECTION_BACKWARD
       (driving_car 100 MOTOR_STATE_DRIVE_SPEED)))
     = sample_motor
   \<and> leftCarMotor (snd (checkAndHandleDirectionChange sample_driver DIRECTION_BACKWARD
       (driving_car 100 MOTOR_STATE_DRIVE_SPEED)))
     = sample_motor
   \<and> CarDirectionOrBrakeMode (snd (checkAndHandleDirectionChange sample_driver DIRECTION_BACKWARD
       (driving_car 100 MOTOR_STATE_DRIVE_SPEED)))
     = DIRECTION_BACKWARD
   \<and> unat (Millis (snd (checkAndHandleDirectionChange sample_driver DIRECTION_BACKWARD
        (driving_car 100 MOTOR_STATE_DRIVE_SPEED))) - Millis (driving_car 100 MOTOR_STATE_DRIVE_SPEED))
     \<le> unat (Millis (snd (checkAndHandleDirectionChange sample_driver DIRECTION_BACKWARD
        (driving_car 200 MOTOR_STATE_DRIVE_SPEED))) - Millis (driving_car 200 MOTOR_STATE_DRIVE_SPEED))"
proof -
  let ?s = "driving_car 100 MOTOR_STATE_DRIVE_SPEED"
  let ?t = "driving_car 200 MOTOR_STATE_DRIVE_SPEED"
  let ?r = "snd (checkAndHandleDirectionChange sample_driver DIRECTION_BACKWARD ?s)"
  let ?n = "unat (max (CurrentSpeed (rightCarMotor ?s)) (CurrentSpeed (leftCarMotor ?s)) div 2)"
  have same: "DIRECTION_FORWARD = CarDirectionOrBrakeMode ?s"
    by (simp add: driving_car_def sample_car_def)
  have rest: "DIRECTION_FORWARD \<noteq> CarDirectionOrBrakeMode sample_car \<and> isStopped sample_car"
    by (simp add: sample_car_def sample_motor_def isStopped_def)
  have moving: "DIRECTION_BACKWARD \<noteq> CarDirectionOrBrakeMode ?s \<and> \<not> isStopped ?s"
    by (simp add: driving_car_def sample_car_def sample_motor_def isStopped_def)
  have faster: "DIRECTION_BACKWARD \<noteq> CarDirectionOrBrakeMode ?s \<and> \<not> isStopped ?s
      \<and> DIRECTION_BACKWARD \<noteq> CarDirectionOrBrakeMode ?t \<and> \<not> isStopped ?t
      \<and> max (CurrentSpeed (rightCarMotor ?s)) (CurrentSpeed (leftCarMotor ?s))
          \<le> max (CurrentSpeed (rightCarMotor ?t)) (CurrentSpeed (leftCarMotor ?t))"
    by (simp add: driving_car_def sample_car_def sample_motor_def isStopped_def)
  have half: "?n = 50"
    by (simp add: driving_car_def sample_car_def sample_motor_def)
  have empty: "Trace ?s = []"
    by (simp add: driving_car_def sample_car_def)
  have stopped_right:
    "motor_elapse sample_driver 50 (motor_exec sample_driver (Stop MOTOR_BRAKE) (rightCarMotor ?s))
       = sample_motor"
    by (simp add: sample_driver_def sample_motor_exec_def driving_car_def sample_car_def
        sample_motor_def)
  have stopped_left:
    "motor_elapse sample_driver 50 (motor_exec sample_driver (Stop MOTOR_BRAKE) (leftCarMotor ?s))
       = sample_motor"
    by (simp add: sample_driver_def sample_motor_exec_def driving_car_def sample_car_def
        sample_motor_def)
  from same have c1: "checkAndHandleDirectionChange sample_driver DIRECTION_FORWARD ?s = (False, ?s)"
    using direction_change_arbitration [where aRequestedDirection = DIRECTION_FORWARD
        and s = ?s and D = sample_driver] by blast
  from rest have c2: "checkAndHandleDirectionChange sample_driver DIRECTION_FORWARD sample_car
      = (False, sample_car\<lparr>CarDirectionOrBrakeMode := DIRECTION_FORWARD\<rparr>)"
    using direction_change_arbitration [where aRequestedDirection = DIRECTION_FORWARD
        and s = sample_car and D = sample_driver] by blast
  note inst = direction_change_arbitration [where aRequestedDirection = DIRECTION_BACKWARD
        and s = ?s and D = sample_driver and aOtherDirection = DIRECTION_BACKWARD and t = ?t]
  from moving inst have c3: "fst (checkAndHandleDirectionChange sample_driver DIRECTION_BACKWARD ?s)"
    by simp
  from moving inst have "Trace ?r
      = Trace ?s @ [MotorCall RightMotor (Stop MOTOR_BRAKE), MotorCall LeftMotor (Stop MOTOR_BRAKE),
            Delay ?n]"
    by blast
  then have c4: "Trace ?r
      = [MotorCall RightMotor (Stop MOTOR_BRAKE), MotorCall LeftMotor (Stop MOTOR_BRAKE), Delay 50]"
    by (simp only: half empty append_Nil)
  from moving inst have "rightCarMotor ?r
      = motor_elapse sample_driver ?n (motor_exec sample_driver (Stop MOTOR_BRAKE) (rightCarMotor ?s))"
    by blast
  then have c5: "rightCarMotor ?r = sample_motor"
    by (simp only: half stopped_right)
  from moving inst have "leftCarMotor ?r
      = motor_elapse sample_driver ?n (motor_exec sample_driver (Stop MOTOR_BRAKE) (leftCarMotor ?s))"
    by blast
  then have c6: "leftCarMotor ?r = sample_motor"
    by (simp only: half stopped_left)
  from moving inst have c7: "CarDirectionOrBrakeMode ?r = DIRECTION_BACKWARD"
    by blast
  from faster inst have c8:
    "unat (Millis ?r - Millis ?s)
     \<le> unat (Millis (snd (checkAndHandleDirectionChange sample_driver DIRECTION_BACKWARD ?t)) - Millis ?t)"
    by blast
  from c1 c2 c3 c4 c5 c6 c7 c8 show ?thesis by blast
qed

section \<open>Speed compensation (lines 129-159)\<close>

lemma sint8_bounds: "- 128 \<le> sint d \<and> sint d < 128" for d :: "8 word"
  using sint_ge [of d] sint_lt [of d] by simp

lemma uint8_bounds: "0 \<le> uint x \<and> uint x < 256" for x :: "8 word"
  using uint_lt2p [of x] by simp

lemma sint_neg8: "sint d \<noteq> - 128 \<Longrightarrow> sint (- d) = - sint d" for d :: "8 word"
proof -
  assume "sint d \<noteq> - 128"
  then have "- (2 ^ 7) \<le> - sint d \<and> - sint d < 2 ^ 7"
    using sint8_bounds [of d] by simp
  then have "signed_take_bit 7 (- sint d) = - sint d"
    by (simp add: signed_take_bit_int_eq_self)
  then show ?thesis
    by (simp add: sint_word_minus)
qed

lemma uint_sint8_mod: "uint d = sint d mod 256" for d :: "8 word"
  by (simp add: uint_sint [of d] take_bit_eq_mod)

lemma uint_add_sint8: "uint (x + d) = (uint x + sint d) mod 256" for x d :: "8 word"
  by (simp add: uint_word_ariths uint_sint8_mod [of d] mod_add_right_eq)

lemma uint_sub_sint8: "uint (x - d) = (uint x - sint d) mod 256" for x d :: "8 word"
  by (simp add: uint_word_ariths uint_sint8_mod [of d] mod_diff_right_eq)

lemma change_positive_lowers_left:
  "0 < sint d \<Longrightarrow> sint d \<le> uint (SpeedCompensation (leftCarMotor s)) \<Longrightarrow>
   changeSpeedCompensation d s =
     s\<lparr>leftCarMotor := (leftCarMotor s)\<lparr>SpeedCompensation := SpeedCompensation (leftCarMotor s) - d\<rparr>,
       MotorControlValuesHaveChanged := True\<rparr>"
  by (simp add: changeSpeedCompensation_def)

lemma change_positive_raises_right:
  "0 < sint d \<Longrightarrow> uint (SpeedCompensation (leftCarMotor s)) < sint d \<Longrightarrow>
   changeSpeedCompensation d s =
     s\<lparr>rightCarMotor := (rightCarMotor s)\<lparr>SpeedCompensation := SpeedCompensation (rightCarMotor s) + d\<rparr>,
       MotorControlValuesHaveChanged := True\<rparr>"
  by (simp add: changeSpeedCompensation_def)

lemma change_negative_lowers_right:
  "sint d \<le> 0 \<Longrightarrow> sint d \<noteq> - 128 \<Longrightarrow> - sint d \<le> uint (SpeedCompensation (rightCarMotor s)) \<Longrightarrow>
   changeSpeedCompensation d s =
     s\<lparr>rightCarMotor := (rightCarMotor s)\<lparr>SpeedCompensation := SpeedCompensation (rightCarMotor s) + d\<rparr>,
       MotorControlValuesHaveChanged := True\<rparr>"
  by (simp add: changeSpeedCompensation_def Let_def sint_neg8)

lemma change_negative_raises_left:
  "sint d \<le> 0 \<Longrightarrow> sint d \<noteq> - 128 \<Longrightarrow> uint (SpeedCompensation (rightCarMotor s)) < - sint d \<Longrightarrow>
   changeSpeedCompensation d s =
     s\<lparr>leftCarMotor := (leftCarMotor s)\<lparr>SpeedCompensation := SpeedCompensation (leftCarMotor s) - d\<rparr>,
       MotorControlValuesHaveChanged := True\<rparr>"
  by (simp add: changeSpeedCompensation_def Let_def sint_neg8)

lemma round_trip_positive:
  assumes pos: "0 < sint d"
    and notboth: "\<not> (sint d \<le> uint (SpeedCompensation (leftCarMotor s))
                  \<and> sint d \<le> uint (SpeedCompensation (rightCarMotor s)))"
    and room: "uint (SpeedCompensation (leftCarMotor s)) < sint d \<longrightarrow>
               uint (SpeedCompensation (rightCarMotor s)) + sint d \<le> 255"
  shows "SpeedCompensation (leftCarMotor (changeSpeedCompensation (- d) (changeSpeedCompensation d s)))
           = SpeedCompensation (leftCarMotor s)
       \<and> SpeedCompensation (rightCarMotor (changeSpeedCompensation (- d) (changeSpeedCompensation d s)))
           = SpeedCompensation (rightCarMotor s)"
proof -
  have ne: "sint d \<noteq> - 128" using pos by simp
  have neg: "sint (- d) = - sint d" using ne by (rule sint_neg8)
  then have nn: "sint (- d) \<le> 0" "sint (- d) \<noteq> - 128"
    using pos sint8_bounds [of d] by simp_all
  show ?thesis
  proof (cases "sint d \<le> uint (SpeedCompensation (leftCarMotor s))")
    case True
    then have small: "uint (SpeedCompensation (rightCarMotor s)) < - sint (- d)"
      using notboth neg by simp
    let ?s1 = "changeSpeedCompensation d s"
    have s1: "?s1 = s\<lparr>leftCarMotor := (leftCarMotor s)
                 \<lparr>SpeedCompensation := SpeedCompensation (leftCarMotor s) - d\<rparr>,
               MotorControlValuesHaveChanged := True\<rparr>"
      using pos True by (rule change_positive_lowers_left)
    have "uint (SpeedCompensation (rightCarMotor ?s1)) < - sint (- d)"
      using small by (simp add: s1)
    from change_negative_raises_left [OF nn this] show ?thesis
      by (simp add: s1)
  next
    case False
    then have lt: "uint (SpeedCompensation (leftCarMotor s)) < sint d" by simp
    let ?s1 = "changeSpeedCompensation d s"
    have s1: "?s1 = s\<lparr>rightCarMotor := (rightCarMotor s)
                 \<lparr>SpeedCompensation := SpeedCompensation (rightCarMotor s) + d\<rparr>,
               MotorControlValuesHaveChanged := True\<rparr>"
      using pos lt by (rule change_positive_raises_right)
    have "uint (SpeedCompensation (rightCarMotor s) + d)
        = uint (SpeedCompensation (rightCarMotor s)) + sint d"
      using room lt pos uint8_bounds [of "SpeedCompensation (rightCarMotor s)"]
      by (simp add: uint_add_sint8)
    then have "- sint (- d) \<le> uint (SpeedCompensation (rightCarMotor ?s1))"
      using neg uint8_bounds [of "SpeedCompensation (rightCarMotor s)"] by (simp add: s1)
    from change_negative_lowers_right [OF nn this] show ?thesis
      by (simp add: s1)
  qed
qed

lemma round_trip_negative:
  assumes neg: "sint d < 0" and ne: "sint d \<noteq> - 128"
    and notboth: "\<not> (- sint d \<le> uint (SpeedCompensation (rightCarMotor s))
                  \<and> - sint d \<le> uint (SpeedCompensation (leftCarMotor s)))"
    and room: "uint (SpeedCompensation (rightCarMotor s)) < - sint d \<longrightarrow>
               uint (SpeedCompensation (leftCarMotor s)) - sint d \<le> 255"
  shows "SpeedCompensation (leftCarMotor (changeSpeedCompensation (- d) (changeSpeedCompensation d s)))
           = SpeedCompensation (leftCarMotor s)
       \<and> SpeedCompensation (rightCarMotor (changeSpeedCompensation (- d) (changeSpeedCompensation d s)))
           = SpeedCompensation (rightCarMotor s)"
proof -
  have m: "sint (- d) = - sint d" using ne by (rule sint_neg8)
  then have pos: "0 < sint (- d)" using neg by simp
  have le: "sint d \<le> 0" using neg by simp
  show ?thesis
  proof (cases "- sint d \<le> uint (SpeedCompensation (rightCarMotor s))")
    case True
    let ?s1 = "changeSpeedCompensation d s"
    have s1: "?s1 = s\<lparr>rightCarMotor := (rightCarMotor s)
                 \<lparr>SpeedCompensation := SpeedCompensation (rightCarMotor s) + d\<rparr>,
               MotorControlValuesHaveChanged := True\<rparr>"
      using le ne True by (rule change_negative_lowers_right)
    have "uint (SpeedCompensation (leftCarMotor ?s1)) < sint (- d)"
      using notboth True m by (simp add: s1)
    from change_positive_raises_right [OF pos this] show ?thesis
      by (simp add: s1)
  next
    case False
    then have lt: "uint (SpeedCompensation (rightCarMotor s)) < - sint d" by simp
    let ?s1 = "changeSpeedCompensation d s"
    have s1: "?s1 = s\<lparr>leftCarMotor := (leftCarMotor s)
                 \<lparr>SpeedCompensation := SpeedCompensation (leftCarMotor s) - d\<rparr>,
               MotorControlValuesHaveChanged := True\<rparr>"
      using le ne lt by (rule change_negative_raises_left)
    have "0 \<le> uint (SpeedCompensation (leftCarMotor s)) - sint d"
      using neg uint8_bounds [of "SpeedCompensation (leftCarMotor s)"] by linarith
    moreover have "uint (SpeedCompensation (leftCarMotor s)) - sint d < 256"
      using room lt by linarith
    ultimately have "uint (SpeedCompensation (leftCarMotor s) - d)
        = uint (SpeedCompensation (leftCarMotor s)) - sint d"
      by (simp add: uint_sub_sint8 mod_pos_pos_trivial)
    then have "sint (- d) \<le> uint (SpeedCompensation (leftCarMotor ?s1))"
      using m uint8_bounds [of "SpeedCompensation (leftCarMotor s)"] by (simp add: s1)
    from change_positive_lowers_left [OF pos this] show ?thesis
      by (simp add: s1)
  qed
qed


text \<open>
  C6, as amended. Calling \<open>changeSpeedCompensation d\<close> and then
  \<open>changeSpeedCompensation (- d)\<close> gives both compensations their old values when
  \<open>d\<close> is not -128, the two units do not both hold at least \<open>|d|\<close>, and, where the
  first call has to raise a unit, the raised value still fits in 8 bits. A positive
  \<open>d\<close> lowers the left compensation by \<open>d\<close> when it is at least \<open>d\<close> and
  otherwise raises the right one by \<open>d\<close> (modulo 256); a negative \<open>d\<close> other than
  -128 does the same with the units exchanged.
\<close>

theorem change_speed_compensation_round_trip:
  "(sint d \<noteq> - 128
      \<and> \<not> (\<bar>sint d\<bar> \<le> lowered_compensation d s \<and> \<bar>sint d\<bar> \<le> raised_compensation d s)
      \<and> (lowered_compensation d s < \<bar>sint d\<bar> \<longrightarrow> raised_compensation d s + \<bar>sint d\<bar> \<le> 255)
    \<longrightarrow> SpeedCompensation (leftCarMotor (changeSpeedCompensation (- d) (changeSpeedCompensation d s)))
          = SpeedCompensation (leftCarMotor s)
      \<and> SpeedCompensation (rightCarMotor (changeSpeedCompensation (- d) (changeSpeedCompensation d s)))
          = SpeedCompensation (rightCarMotor s))
   \<and> (0 < sint d \<and> sint d \<le> uint (SpeedCompensation (leftCarMotor s))
    \<longrightarrow> uint (SpeedCompensation (leftCarMotor (changeSpeedCompensation d s)))
          = uint (SpeedCompensation (leftCarMotor s)) - sint d
      \<and> SpeedCompensation (rightCarMotor (changeSpeedCompensation d s))
          = SpeedCompensation (rightCarMotor s))
   \<and> (0 < sint d \<and> uint (SpeedCompensation (leftCarMotor s)) < sint d
    \<longrightarrow> uint (SpeedCompensation (rightCarMotor (changeSpeedCompensation d s)))
          = (uint (SpeedCompensation (rightCarMotor s)) + sint d) mod 256
      \<and> SpeedCompensation (leftCarMotor (changeSpeedCompensation d s))
          = SpeedCompensation (leftCarMotor s))
   \<and> (sint d < 0 \<and> sint d \<noteq> - 128 \<and> - sint d \<le> uint (SpeedCompensation (rightCarMotor s))
    \<longrightarrow> uint (SpeedCompensation (rightCarMotor (changeSpeedCompensation d s)))
          = uint (SpeedCompensation (rightCarMotor s)) + sint d
      \<and> SpeedCompensation (leftCarMotor (changeSpeedCompensation d s))
          = SpeedCompensation (leftCarMotor s))
   \<and> (sint d < 0 \<and> sint d \<noteq> - 128 \<and> uint (SpeedCompensation (rightCarMotor s)) < - sint d
    \<longrightarrow> uint (SpeedCompensation (leftCarMotor (changeSpeedCompensation d s)))
          = (uint (SpeedCompensation (leftCarMotor s)) - sint d) mod 256
      \<and> SpeedCompensation (rightCarMotor (changeSpeedCompensation d s))
          = SpeedCompensation (rightCarMotor s))"
proof (intro conjI impI)
  assume a: "sint d \<noteq> - 128
      \<and> \<not> (\<bar>sint d\<bar> \<le> lowered_compensation d s \<and> \<bar>sint d\<bar> \<le> raised_compensation d s)
      \<and> (lowered_compensation d s < \<bar>sint d\<bar> \<longrightarrow> raised_compensation d s + \<bar>sint d\<bar> \<le> 255)"
  have both: "SpeedCompensation (leftCarMotor (changeSpeedCompensation (- d) (changeSpeedCompensation d s)))
          = SpeedCompensation (leftCarMotor s)
      \<and> SpeedCompensation (rightCarMotor (changeSpeedCompensation (- d) (changeSpeedCompensation d s)))
          = SpeedCompensation (rightCarMotor s)"
  proof (cases "0 < sint d")
    case True
    with a show ?thesis
      by (intro round_trip_positive) (simp_all add: lowered_compensation_def raised_compensation_def)
  next
    case False
    have "sint d \<noteq> 0"
      using a uint8_bounds [of "SpeedCompensation (rightCarMotor s)"]
        uint8_bounds [of "SpeedCompensation (leftCarMotor s)"]
      by (auto simp: lowered_compensation_def raised_compensation_def)
    with False have neg: "sint d < 0" by simp
    with a show ?thesis
      by (intro round_trip_negative) (simp_all add: lowered_compensation_def raised_compensation_def)
  qed
  from both show "SpeedCompensation (leftCarMotor (changeSpeedCompensation (- d) (changeSpeedCompensation d s)))
          = SpeedCompensation (leftCarMotor s)" by simp
  from both show "SpeedCompensation (rightCarMotor (changeSpeedCompensation (- d) (changeSpeedCompensation d s)))
          = SpeedCompensation (rightCarMotor s)" by simp
next
  assume a: "0 < sint d \<and> sint d \<le> uint (SpeedCompensation (leftCarMotor s))"
  then have "0 \<le> uint (SpeedCompensation (leftCarMotor s)) - sint d"
    and "uint (SpeedCompensation (leftCarMotor s)) - sint d < 256"
    using uint8_bounds [of "SpeedCompensation (leftCarMotor s)"] by linarith+
  then show "uint (SpeedCompensation (leftCarMotor (changeSpeedCompensation d s)))
          = uint (SpeedCompensation (leftCarMotor s)) - sint d"
    using a by (simp add: change_positive_lowers_left uint_sub_sint8 mod_pos_pos_trivial)
  from a show "SpeedCompensation (rightCarMotor (changeSpeedCompensation d s))
          = SpeedCompensation (rightCarMotor s)"
    by (simp add: change_positive_lowers_left)
next
  assume a: "0 < sint d \<and> uint (SpeedCompensation (leftCarMotor s)) < sint d"
  then show "uint (SpeedCompensation (rightCarMotor (changeSpeedCompensation d s)))
          = (uint (SpeedCompensation (rightCarMotor s)) + sint d) mod 256"
    by (simp add: change_positive_raises_right uint_add_sint8)
  from a show "SpeedCompensation (leftCarMotor (changeSpeedCompensation d s))
          = SpeedCompensation (leftCarMotor s)"
    by (simp add: change_positive_raises_right)
next
  assume a: "sint d < 0 \<and> sint d \<noteq> - 128 \<and> - sint d \<le> uint (SpeedCompensation (rightCarMotor s))"
  then have "0 \<le> uint (SpeedCompensation (rightCarMotor s)) + sint d"
    and "uint (SpeedCompensation (rightCarMotor s)) + sint d < 256"
    using uint8_bounds [of "SpeedCompensation (rightCarMotor s)"] by linarith+
  then show "uint (SpeedCompensation (rightCarMotor (changeSpeedCompensation d s)))
          = uint (SpeedCompensation (rightCarMotor s)) + sint d"
    using a by (simp add: change_negative_lowers_right uint_add_sint8 mod_pos_pos_trivial)
  from a show "SpeedCompensation (leftCarMotor (changeSpeedCompensation d s))
          = SpeedCompensation (leftCarMotor s)"
    by (simp add: change_negative_lowers_right)
next
  assume a: "sint d < 0 \<and> sint d \<noteq> - 128 \<and> uint (SpeedCompensation (rightCarMotor s)) < - sint d"
  then show "uint (SpeedCompensation (leftCarMotor (changeSpeedCompensation d s)))
          = (uint (SpeedCompensation (leftCarMotor s)) - sint d) mod 256"
    by (simp add: change_negative_raises_left uint_sub_sint8)
  from a show "SpeedCompensation (rightCarMotor (changeSpeedCompensation d s))
          = SpeedCompensation (rightCarMotor s)"
    by (simp add: change_negative_raises_left)
qed

lemma compensated_car_fields:
  "SpeedCompensation (leftCarMotor (compensated_car l r)) = l"
  "SpeedCompensation (rightCarMotor (compensated_car l r)) = r"
  by (simp_all add: compensated_car_def sample_car_def)

text \<open>
  Delta 3 and delta -3 on the compensations (left, right) = (5, 0) and (0, 5).
\<close>

theorem change_speed_compensation_round_trip_witness:
  "SpeedCompensation (leftCarMotor
       (changeSpeedCompensation (- 3) (changeSpeedCompensation 3 (compensated_car 5 0)))) = 5
   \<and> SpeedCompensation (rightCarMotor
       (changeSpeedCompensation (- 3) (changeSpeedCompensation 3 (compensated_car 5 0)))) = 0
   \<and> uint (SpeedCompensation (leftCarMotor (changeSpeedCompensation 3 (compensated_car 5 0)))) = 2
   \<and> uint (SpeedCompensation (rightCarMotor (changeSpeedCompensation 3 (compensated_car 0 5)))) = 8
   \<and> uint (SpeedCompensation (rightCarMotor (changeSpeedCompensation (- 3) (compensated_car 0 5)))) = 2
   \<and> uint (SpeedCompensation (leftCarMotor (changeSpeedCompensation (- 3) (compensated_car 5 0)))) = 8"
  using change_speed_compensation_round_trip [of 3 "compensated_car 5 0"]
    change_speed_compensation_round_trip [of 3 "compensated_car 0 5"]
    change_speed_compensation_round_trip [of "- 3" "compensated_car 0 5"]
    change_speed_compensation_round_trip [of "- 3" "compensated_car 5 0"]
  by (simp add: lowered_compensation_def raised_compensation_def compensated_car_fields)

text \<open>
  With both compensations at 5, delta 3 followed by delta -3 leaves both at 2.
\<close>

theorem change_speed_compensation_round_trip_counterexample:
  "SpeedCompensation (leftCarMotor (compensated_car 5 5)) = 5
   \<and> SpeedCompensation (rightCarMotor (compensated_car 5 5)) = 5
   \<and> SpeedCompensation (leftCarMotor
       (changeSpeedCompensation (- 3) (changeSpeedCompensation 3 (compensated_car 5 5)))) = 2
   \<and> SpeedCompensation (rightCarMotor
       (changeSpeedCompensation (- 3) (changeSpeedCompensation 3 (compensated_car 5 5)))) = 2"
  by (simp add: changeSpeedCompensation_def compensated_car_def sample_car_def Let_def)

section \<open>The compensation invariant\<close>

lemma set_values_one_sided:
  assumes "\<And>a b c m. SpeedCompensation (motor_exec D (SetValuesForFixedDistanceDriving a b c) m) = c"
  shows "one_sided (setValuesForFixedDistanceDriving D aStartSpeed aDriveSpeed aComp s)"
  by (simp add: one_sided_def setValuesForFixedDistanceDriving_def motor_call_simps assms)

lemma change_one_sided:
  assumes inv: "one_sided s" and ok: "plain_transfer d s"
  shows "one_sided (changeSpeedCompensation d s)"
proof -
  let ?L = "SpeedCompensation (leftCarMotor s)" and ?R = "SpeedCompensation (rightCarMotor s)"
  have ne: "sint d \<noteq> - 128" using ok by (simp add: plain_transfer_def)
  have zero: "\<And>x :: 8 word. uint x = 0 \<longleftrightarrow> x = 0"
    by (simp add: uint_0_iff)
  show ?thesis
  proof (cases "0 < sint d")
    case True
    then have low: "uint ?L = 0 \<or> sint d \<le> uint ?L"
      using ok by (simp add: plain_transfer_def lowered_compensation_def)
    show ?thesis
    proof (cases "sint d \<le> uint ?L")
      case le: True
      then have "?L \<noteq> 0" using True by auto
      then have "?R = 0" using inv by (simp add: one_sided_def)
      then show ?thesis
        using True le by (simp add: change_positive_lowers_left one_sided_def)
    next
      case False
      then have "?L = 0" using low zero by simp
      moreover have "uint ?L < sint d" using False by simp
      ultimately show ?thesis
        using True by (simp add: change_positive_raises_right one_sided_def)
    qed
  next
    case False
    then have le0: "sint d \<le> 0" by simp
    have low: "uint ?R = 0 \<or> - sint d \<le> uint ?R"
      using ok False by (simp add: plain_transfer_def lowered_compensation_def)
    show ?thesis
    proof (cases "- sint d \<le> uint ?R")
      case le: True
      show ?thesis
      proof (cases "?R = 0")
        case True
        then have "sint d = 0" using le le0 by simp
        from arg_cong [where f = "word_of_int :: int \<Rightarrow> 8 word", OF this]
        have "d = 0" by simp
        then show ?thesis
          using inv True by (simp add: changeSpeedCompensation_def one_sided_def)
      next
        case False
        then have "?L = 0" using inv by (simp add: one_sided_def)
        then show ?thesis
          using le0 ne le by (simp add: change_negative_lowers_right one_sided_def)
      qed
    next
      case False
      then have "?R = 0" using low zero by simp
      moreover have "uint ?R < - sint d" using False by simp
      ultimately show ?thesis
        using le0 ne by (simp add: change_negative_raises_left one_sided_def)
    qed
  qed
qed

text \<open>
  C8, as amended. \<open>setValuesForFixedDistanceDriving\<close> always leaves at most one
  compensation nonzero when the unit's setter stores the value it is given, and
  \<open>changeSpeedCompensation\<close> keeps it so when the change is a plain transfer. So a run
  of the two operations from a state with at most one nonzero compensation, all of whose
  changes are plain transfers, ends in such a state.
\<close>

theorem compensation_one_sided_preserved:
  assumes "\<And>a b c m. SpeedCompensation (motor_exec D (SetValuesForFixedDistanceDriving a b c) m) = c"
    and "one_sided s"
    and "transfers_only D ops s"
  shows "one_sided (run_compensation_ops D ops s)"
  using assms(2,3)
proof (induction ops arbitrary: s)
  case Nil
  then show ?case by simp
next
  case (Cons x xs)
  have "one_sided (apply_compensation_op D x s)"
  proof (cases x)
    case (SetValues a b c)
    then show ?thesis by (simp add: set_values_one_sided assms(1))
  next
    case (ChangeCompensation d)
    then show ?thesis using Cons.prems by (simp add: change_one_sided)
  qed
  moreover have "transfers_only D xs (apply_compensation_op D x s)"
    using Cons.prems by simp
  ultimately show ?case
    by (simp add: Cons.IH)
qed

lemma sample_driver_stores_compensation:
  "SpeedCompensation (motor_exec sample_driver (SetValuesForFixedDistanceDriving a b c) m) = c"
  by (simp add: sample_driver_def sample_motor_exec_def)

text \<open>
  A run of plain transfers and one setting of the values, from the car without
  compensation.
\<close>

theorem compensation_one_sided_preserved_witness:
  "one_sided sample_car
   \<and> transfers_only sample_driver
        [ChangeCompensation 3, ChangeCompensation (- 2), SetValues 40 100 (- 4),
         ChangeCompensation 4] sample_car
   \<and> one_sided (run_compensation_ops sample_driver
        [ChangeCompensation 3, ChangeCompensation (- 2), SetValues 40 100 (- 4),
         ChangeCompensation 4] sample_car)"
proof -
  have inv: "one_sided sample_car"
    by (simp add: one_sided_def sample_car_def sample_motor_def)
  have ok: "transfers_only sample_driver
        [ChangeCompensation 3, ChangeCompensation (- 2), SetValues 40 100 (- 4),
         ChangeCompensation 4] sample_car"
    by (simp add: plain_transfer_def lowered_compensation_def changeSpeedCompensation_def
        setValuesForFixedDistanceDriving_def motor_call_def get_motor_def set_motor_def
        sample_driver_def sample_motor_exec_def sample_car_def sample_motor_def Let_def)
  from compensation_one_sided_preserved [OF sample_driver_stores_compensation inv ok] inv ok
  show ?thesis by simp
qed

text \<open>
  From the car without compensation, delta 3 followed by delta -5 leaves 3 on the right
  and 5 on the left unit.
\<close>

theorem compensation_one_sided_counterexample:
  "one_sided sample_car
   \<and> \<not> one_sided (run_compensation_ops sample_driver
          [ChangeCompensation 3, ChangeCompensation (- 5)] sample_car)
   \<and> SpeedCompensation (rightCarMotor (run_compensation_ops sample_driver
          [ChangeCompensation 3, ChangeCompensation (- 5)] sample_car)) = 3
   \<and> SpeedCompensation (leftCarMotor (run_compensation_ops sample_driver
          [ChangeCompensation 3, ChangeCompensation (- 5)] sample_car)) = 5"
  by (simp add: one_sided_def changeSpeedCompensation_def sample_car_def sample_motor_def Let_def)

section \<open>The two-argument setSpeed (lines 203-207)\<close>

lemma direction_change_mode:
  "CarDirectionOrBrakeMode (snd (checkAndHandleDirectionChange D aRequestedDirection s))
     = aRequestedDirection"
  by (simp add: checkAndHandleDirectionChange_def Let_def split: prod.split)

text \<open>
  C7, as amended. The two-argument \<open>setSpeed\<close> first runs the direction arbitration
  and then gives the same uncompensated speed and direction to the right and to the
  left unit. With the commanded mode as the requested direction, or with both units at
  speed 0, the two calls are all that is logged and no time passes; with another
  direction and a unit still running, the brake-stop of both units and the wait of
  half the higher speed come first. The commanded mode is the requested direction
  afterwards.
\<close>

theorem set_speed_arbitrates:
  "((aRequestedDirection = CarDirectionOrBrakeMode s \<or> isStopped s) \<longrightarrow>
      Trace (setSpeed D aRequestedSpeed aRequestedDirection s) =
        Trace s @ [MotorCall RightMotor (SetSpeed aRequestedSpeed aRequestedDirection),
                   MotorCall LeftMotor (SetSpeed aRequestedSpeed aRequestedDirection)]
      \<and> Millis (setSpeed D aRequestedSpeed aRequestedDirection s) = Millis s
      \<and> rightCarMotor (setSpeed D aRequestedSpeed aRequestedDirection s) =
          motor_exec D (SetSpeed aRequestedSpeed aRequestedDirection) (rightCarMotor s)
      \<and> leftCarMotor (setSpeed D aRequestedSpeed aRequestedDirection s) =
          motor_exec D (SetSpeed aRequestedSpeed aRequestedDirection) (leftCarMotor s))
   \<and> (aRequestedDirection \<noteq> CarDirectionOrBrakeMode s \<and> \<not> isStopped s \<longrightarrow>
      Trace (setSpeed D aRequestedSpeed aRequestedDirection s) =
        Trace s @ [MotorCall RightMotor (Stop MOTOR_BRAKE), MotorCall LeftMotor (Stop MOTOR_BRAKE),
                   Delay (unat (max (CurrentSpeed (rightCarMotor s))
                                    (CurrentSpeed (leftCarMotor s)) div 2)),
                   MotorCall RightMotor (SetSpeed aRequestedSpeed aRequestedDirection),
                   MotorCall LeftMotor (SetSpeed aRequestedSpeed aRequestedDirection)]
      \<and> Millis (setSpeed D aRequestedSpeed aRequestedDirection s) =
          Millis s + word_of_nat (unat (max (CurrentSpeed (rightCarMotor s))
                                            (CurrentSpeed (leftCarMotor s)) div 2))
      \<and> rightCarMotor (setSpeed D aRequestedSpeed aRequestedDirection s) =
          motor_exec D (SetSpeed aRequestedSpeed aRequestedDirection)
            (motor_elapse D (unat (max (CurrentSpeed (rightCarMotor s))
                                       (CurrentSpeed (leftCarMotor s)) div 2))
               (motor_exec D (Stop MOTOR_BRAKE) (rightCarMotor s)))
      \<and> leftCarMotor (setSpeed D aRequestedSpeed aRequestedDirection s) =
          motor_exec D (SetSpeed aRequestedSpeed aRequestedDirection)
            (motor_elapse D (unat (max (CurrentSpeed (rightCarMotor s))
                                       (CurrentSpeed (leftCarMotor s)) div 2))
               (motor_exec D (Stop MOTOR_BRAKE) (leftCarMotor s))))
   \<and> CarDirectionOrBrakeMode (setSpeed D aRequestedSpeed aRequestedDirection s)
       = aRequestedDirection"
proof (intro conjI impI)
  assume a: "aRequestedDirection = CarDirectionOrBrakeMode s \<or> isStopped s"
  have "snd (checkAndHandleDirectionChange D aRequestedDirection s) = s
      \<or> snd (checkAndHandleDirectionChange D aRequestedDirection s)
          = s\<lparr>CarDirectionOrBrakeMode := aRequestedDirection\<rparr>"
    using a direction_change_same [of aRequestedDirection s D]
      direction_change_stationary [of aRequestedDirection s D]
    by (cases "aRequestedDirection = CarDirectionOrBrakeMode s") auto
  then have f: "Trace (snd (checkAndHandleDirectionChange D aRequestedDirection s)) = Trace s"
    "Millis (snd (checkAndHandleDirectionChange D aRequestedDirection s)) = Millis s"
    "rightCarMotor (snd (checkAndHandleDirectionChange D aRequestedDirection s)) = rightCarMotor s"
    "leftCarMotor (snd (checkAndHandleDirectionChange D aRequestedDirection s)) = leftCarMotor s"
    by auto
  show "Trace (setSpeed D aRequestedSpeed aRequestedDirection s) =
        Trace s @ [MotorCall RightMotor (SetSpeed aRequestedSpeed aRequestedDirection),
                   MotorCall LeftMotor (SetSpeed aRequestedSpeed aRequestedDirection)]"
    by (simp add: setSpeed_def Let_def motor_call_simps f)
  show "Millis (setSpeed D aRequestedSpeed aRequestedDirection s) = Millis s"
    by (simp add: setSpeed_def Let_def motor_call_simps f)
  show "rightCarMotor (setSpeed D aRequestedSpeed aRequestedDirection s) =
          motor_exec D (SetSpeed aRequestedSpeed aRequestedDirection) (rightCarMotor s)"
    by (simp add: setSpeed_def Let_def motor_call_simps f)
  show "leftCarMotor (setSpeed D aRequestedSpeed aRequestedDirection s) =
          motor_exec D (SetSpeed aRequestedSpeed aRequestedDirection) (leftCarMotor s)"
    by (simp add: setSpeed_def Let_def motor_call_simps f)
next
  assume a: "aRequestedDirection \<noteq> CarDirectionOrBrakeMode s \<and> \<not> isStopped s"
  then show "Trace (setSpeed D aRequestedSpeed aRequestedDirection s) =
        Trace s @ [MotorCall RightMotor (Stop MOTOR_BRAKE), MotorCall LeftMotor (Stop MOTOR_BRAKE),
                   Delay (unat (max (CurrentSpeed (rightCarMotor s))
                                    (CurrentSpeed (leftCarMotor s)) div 2)),
                   MotorCall RightMotor (SetSpeed aRequestedSpeed aRequestedDirection),
                   MotorCall LeftMotor (SetSpeed aRequestedSpeed aRequestedDirection)]"
    by (simp add: setSpeed_def Let_def motor_call_simps direction_change_moving delay_def Trace_stop)
  from a show "Millis (setSpeed D aRequestedSpeed aRequestedDirection s) =
          Millis s + word_of_nat (unat (max (CurrentSpeed (rightCarMotor s))
                                            (CurrentSpeed (leftCarMotor s)) div 2))"
    by (simp add: setSpeed_def Let_def motor_call_simps direction_change_moving delay_def
        Millis_stop)
  from a show "rightCarMotor (setSpeed D aRequestedSpeed aRequestedDirection s) =
          motor_exec D (SetSpeed aRequestedSpeed aRequestedDirection)
            (motor_elapse D (unat (max (CurrentSpeed (rightCarMotor s))
                                       (CurrentSpeed (leftCarMotor s)) div 2))
               (motor_exec D (Stop MOTOR_BRAKE) (rightCarMotor s)))"
    by (simp add: setSpeed_def Let_def motor_call_simps direction_change_moving delay_def
        motors_stop)
  from a show "leftCarMotor (setSpeed D aRequestedSpeed aRequestedDirection s) =
          motor_exec D (SetSpeed aRequestedSpeed aRequestedDirection)
            (motor_elapse D (unat (max (CurrentSpeed (rightCarMotor s))
                                       (CurrentSpeed (leftCarMotor s)) div 2))
               (motor_exec D (Stop MOTOR_BRAKE) (leftCarMotor s)))"
    by (simp add: setSpeed_def Let_def motor_call_simps direction_change_moving delay_def
        motors_stop)
next
  show "CarDirectionOrBrakeMode (setSpeed D aRequestedSpeed aRequestedDirection s)
       = aRequestedDirection"
    by (simp add: setSpeed_def Let_def motor_call_simps direction_change_mode)
qed

lemma driving_car_fields:
  "CarDirectionOrBrakeMode (driving_car v st) = DIRECTION_FORWARD"
  "CurrentSpeed (rightCarMotor (driving_car v st)) = v"
  "CurrentSpeed (leftCarMotor (driving_car v st)) = v"
  "MotorRampState (rightCarMotor (driving_car v st)) = st"
  "Trace (driving_car v st) = []"
  "Millis (driving_car v st) = 0"
  by (simp_all add: driving_car_def sample_car_def)

text \<open>
  Driving forward at 100: speed 50 forward only sets the speed; speed 50 backward stops,
  waits 50 ms and sets the speed.
\<close>

theorem set_speed_arbitrates_witness:
  "Trace (setSpeed sample_driver 50 DIRECTION_FORWARD (driving_car 100 MOTOR_STATE_DRIVE_SPEED)) =
     [MotorCall RightMotor (SetSpeed 50 DIRECTION_FORWARD),
      MotorCall LeftMotor (SetSpeed 50 DIRECTION_FORWARD)]
   \<and> Trace (setSpeed sample_driver 50 DIRECTION_BACKWARD (driving_car 100 MOTOR_STATE_DRIVE_SPEED)) =
     [MotorCall RightMotor (Stop MOTOR_BRAKE), MotorCall LeftMotor (Stop MOTOR_BRAKE), Delay 50,
      MotorCall RightMotor (SetSpeed 50 DIRECTION_BACKWARD),
      MotorCall LeftMotor (SetSpeed 50 DIRECTION_BACKWARD)]"
  using set_speed_arbitrates [of DIRECTION_FORWARD "driving_car 100 MOTOR_STATE_DRIVE_SPEED"
      sample_driver 50]
    set_speed_arbitrates [of DIRECTION_BACKWARD "driving_car 100 MOTOR_STATE_DRIVE_SPEED"
      sample_driver 50]
  by (simp add: driving_car_fields isStopped_def)

text \<open>
  Driving forward at 100, \<open>setSpeed\<close> with speed 50 backward brake-stops both units, waits
  50 ms and changes the commanded mode.
\<close>

theorem set_speed_bypass_counterexample:
  "CarDirectionOrBrakeMode (driving_car 100 MOTOR_STATE_DRIVE_SPEED) = DIRECTION_FORWARD
   \<and> Trace (driving_car 100 MOTOR_STATE_DRIVE_SPEED) = []
   \<and> Trace (setSpeed sample_driver 50 DIRECTION_BACKWARD (driving_car 100 MOTOR_STATE_DRIVE_SPEED))
      ! 0 = MotorCall RightMotor (Stop MOTOR_BRAKE)
   \<and> Trace (setSpeed sample_driver 50 DIRECTION_BACKWARD (driving_car 100 MOTOR_STATE_DRIVE_SPEED))
      ! 1 = MotorCall LeftMotor (Stop MOTOR_BRAKE)
   \<and> Trace (setSpeed sample_driver 50 DIRECTION_BACKWARD (driving_car 100 MOTOR_STATE_DRIVE_SPEED))
      ! 2 = Delay 50
   \<and> Millis (setSpeed sample_driver 50 DIRECTION_BACKWARD (driving_car 100 MOTOR_STATE_DRIVE_SPEED))
      = Millis (driving_car 100 MOTOR_STATE_DRIVE_SPEED) + 50
   \<and> CarDirectionOrBrakeMode
        (setSpeed sample_driver 50 DIRECTION_BACKWARD (driving_car 100 MOTOR_STATE_DRIVE_SPEED))
      = DIRECTION_BACKWARD"
  by (simp add: setSpeed_def checkAndHandleDirectionChange_def stop_def delay_def motor_call_def
      get_motor_def set_motor_def driving_car_def sample_car_def sample_motor_def Let_def)

section \<open>The update engine (lines 322-419)\<close>

lemma updateIMUData_frame:
  "rightCarMotor (updateIMUData D s) = rightCarMotor s"
  "leftCarMotor (updateIMUData D s) = leftCarMotor s"
  "CarRequestedRotationDegrees (updateIMUData D s) = CarRequestedRotationDegrees s"
  "CarRequestedDistanceMillimeter (updateIMUData D s) = CarRequestedDistanceMillimeter s"
  "CarDirectionOrBrakeMode (updateIMUData D s) = CarDirectionOrBrakeMode s"
  "Millis (updateIMUData D s) = Millis s"
  "Trace (updateIMUData D s) = Trace s @ [ImuCall ReadCarDataFromMPU6050Fifo]"
  by (simp_all add: updateIMUData_def imu_call_def Let_def)

lemma isStopped_updateIMUData: "isStopped (updateIMUData D s) = isStopped s"
  by (simp add: isStopped_def updateIMUData_frame)






lemma Trace_changeSpeedCompensated:
  "Trace (changeSpeedCompensated D v s) =
     Trace s @ [MotorCall RightMotor (ChangeSpeedCompensated v),
                MotorCall LeftMotor (ChangeSpeedCompensated v)]"
  by (simp add: changeSpeedCompensated_def motor_call_simps)

lemma motor_call_car_fields:
  "CarRequestedRotationDegrees (motor_call D sd c s) = CarRequestedRotationDegrees s"
  "CarRequestedDistanceMillimeter (motor_call D sd c s) = CarRequestedDistanceMillimeter s"
  "CarDistanceMillimeterFromIMU (motor_call D sd c s) = CarDistanceMillimeterFromIMU s"
  "CarSpeedCmPerSecondFromIMU (motor_call D sd c s) = CarSpeedCmPerSecondFromIMU s"
  "CarTurnAngleHalfDegreesFromIMU (motor_call D sd c s) = CarTurnAngleHalfDegreesFromIMU s"
  by (cases sd; simp add: motor_call_def set_motor_def)+






lemma rotating_car_refresh:
  "a \<noteq> 0 \<Longrightarrow> CarTurnAngleHalfDegreesFromIMU (updateIMUData sample_driver (rotating_car d a)) = a"
  "Trace (rotating_car d a) = []"
  "CarRequestedRotationDegrees (rotating_car d a) = d"
  "StartSpeed sample_motor = 40"
  "rightCarMotor (rotating_car d a) = sample_motor"
  "leftCarMotor (rotating_car d a) = sample_motor"
  by (simp_all add: updateIMUData_def imu_call_def rotating_car_def sample_car_def sample_imu_def
      sample_motor_def sample_driver_def sample_imu_exec_def Let_def)




section \<open>Advancing the units\<close>

lemma updateBothMotors_facts:
  "fst (updateBothMotors D s) =
     (motor_update_result D (rightCarMotor s) \<or> motor_update_result D (leftCarMotor s))"
  "rightCarMotor (snd (updateBothMotors D s)) = motor_exec D UpdateMotor (rightCarMotor s)"
  "leftCarMotor (snd (updateBothMotors D s)) = motor_exec D UpdateMotor (leftCarMotor s)"
  "Trace (snd (updateBothMotors D s)) =
     Trace s @ [MotorCall RightMotor UpdateMotor, MotorCall LeftMotor UpdateMotor]"
  "CarRequestedDistanceMillimeter (snd (updateBothMotors D s)) = CarRequestedDistanceMillimeter s"
  "CarRequestedRotationDegrees (snd (updateBothMotors D s)) = CarRequestedRotationDegrees s"
  by (simp_all add: updateBothMotors_def Let_def motor_call_simps motor_call_car_fields)

lemma updateMotors_no_rotation:
  "\<not> USE_MPU6050_IMU cfg \<or> CarRequestedRotationDegrees s = 0 \<Longrightarrow>
   updateMotors cfg D s =
     updateBothMotors D
       (if USE_MPU6050_IMU cfg then handleRequestedDistance cfg D (updateIMUData D s) else s)"
  by (auto simp: updateMotors_def Let_def updateIMUData_frame)

text \<open>
  C3, as amended. In the build without IMU, and in the IMU build when no rotation is
  pending (a distance pending or not), every tick calls the update of the right and then
  of the left unit, and returns the OR of the two results. In the IMU build with a
  rotation pending the tick does not call the units' update: after the IMU refresh it
  either brake-stops both units, or commands the start speed, or does nothing, and it
  returns true exactly when the rotation is still pending afterwards.
\<close>

theorem engine_advances_units:
  "(\<not> USE_MPU6050_IMU cfg \<or> CarRequestedRotationDegrees s = 0 \<longrightarrow>
      (let s0 = (if USE_MPU6050_IMU cfg then handleRequestedDistance cfg D (updateIMUData D s)
                 else s)
       in fst (updateMotors cfg D s) =
            (motor_update_result D (rightCarMotor s0) \<or> motor_update_result D (leftCarMotor s0))
          \<and> rightCarMotor (snd (updateMotors cfg D s)) = motor_exec D UpdateMotor (rightCarMotor s0)
          \<and> leftCarMotor (snd (updateMotors cfg D s)) = motor_exec D UpdateMotor (leftCarMotor s0)
          \<and> Trace (snd (updateMotors cfg D s)) =
              Trace s0 @ [MotorCall RightMotor UpdateMotor, MotorCall LeftMotor UpdateMotor]))
   \<and> (USE_MPU6050_IMU cfg \<and> CarRequestedRotationDegrees s \<noteq> 0 \<longrightarrow>
      (Trace (snd (updateMotors cfg D s)) =
          Trace s @ [ImuCall ReadCarDataFromMPU6050Fifo, MotorCall RightMotor (Stop MOTOR_BRAKE),
                     MotorCall LeftMotor (Stop MOTOR_BRAKE)]
       \<or> Trace (snd (updateMotors cfg D s)) =
          Trace s @ [ImuCall ReadCarDataFromMPU6050Fifo,
                     MotorCall RightMotor (ChangeSpeedCompensated (StartSpeed (rightCarMotor s))),
                     MotorCall LeftMotor (ChangeSpeedCompensated (StartSpeed (rightCarMotor s)))]
       \<or> Trace (snd (updateMotors cfg D s)) = Trace s @ [ImuCall ReadCarDataFromMPU6050Fifo])
      \<and> (fst (updateMotors cfg D s)
           \<longleftrightarrow> CarRequestedRotationDegrees (snd (updateMotors cfg D s)) \<noteq> 0))"
proof (intro conjI impI)
  assume a: "\<not> USE_MPU6050_IMU cfg \<or> CarRequestedRotationDegrees s = 0"
  show "let s0 = (if USE_MPU6050_IMU cfg then handleRequestedDistance cfg D (updateIMUData D s)
                 else s)
       in fst (updateMotors cfg D s) =
            (motor_update_result D (rightCarMotor s0) \<or> motor_update_result D (leftCarMotor s0))
          \<and> rightCarMotor (snd (updateMotors cfg D s)) = motor_exec D UpdateMotor (rightCarMotor s0)
          \<and> leftCarMotor (snd (updateMotors cfg D s)) = motor_exec D UpdateMotor (leftCarMotor s0)
          \<and> Trace (snd (updateMotors cfg D s)) =
              Trace s0 @ [MotorCall RightMotor UpdateMotor, MotorCall LeftMotor UpdateMotor]"
    unfolding Let_def updateMotors_no_rotation [OF a]
    by (simp add: updateBothMotors_facts)
next
  assume a: "USE_MPU6050_IMU cfg \<and> CarRequestedRotationDegrees s \<noteq> 0"
  show "Trace (snd (updateMotors cfg D s)) =
          Trace s @ [ImuCall ReadCarDataFromMPU6050Fifo, MotorCall RightMotor (Stop MOTOR_BRAKE),
                     MotorCall LeftMotor (Stop MOTOR_BRAKE)]
       \<or> Trace (snd (updateMotors cfg D s)) =
          Trace s @ [ImuCall ReadCarDataFromMPU6050Fifo,
                     MotorCall RightMotor (ChangeSpeedCompensated (StartSpeed (rightCarMotor s))),
                     MotorCall LeftMotor (ChangeSpeedCompensated (StartSpeed (rightCarMotor s)))]
       \<or> Trace (snd (updateMotors cfg D s)) = Trace s @ [ImuCall ReadCarDataFromMPU6050Fifo]"
    using a
    by (simp add: updateMotors_def Let_def updateIMUData_frame Trace_stop
        Trace_changeSpeedCompensated)
  show "fst (updateMotors cfg D s)
           \<longleftrightarrow> CarRequestedRotationDegrees (snd (updateMotors cfg D s)) \<noteq> 0"
    using a
    by (simp add: updateMotors_def Let_def updateIMUData_frame changeSpeedCompensated_def
        motor_call_car_fields)
qed


lemma sample_update_result:
  "motor_update_result sample_driver m \<longleftrightarrow> CurrentSpeed (sample_motor_exec UpdateMotor m) \<noteq> 0"
  "motor_exec sample_driver = sample_motor_exec"
  by (simp_all add: sample_driver_def)

text \<open>
  Without IMU the units in ramp-down are updated and stop; with 90 degrees pending and 160
  half degrees measured the tick slows down and returns true.
\<close>

theorem engine_advances_units_witness:
  "fst (updateMotors (sample_config False True) sample_driver
          (driving_car 100 MOTOR_STATE_RAMP_DOWN))
     = (motor_update_result sample_driver (rightCarMotor (driving_car 100 MOTOR_STATE_RAMP_DOWN))
        \<or> motor_update_result sample_driver (leftCarMotor (driving_car 100 MOTOR_STATE_RAMP_DOWN)))
   \<and> Trace (snd (updateMotors (sample_config False True) sample_driver
          (driving_car 100 MOTOR_STATE_RAMP_DOWN)))
     = [MotorCall RightMotor UpdateMotor, MotorCall LeftMotor UpdateMotor]
   \<and> MotorRampState (rightCarMotor (snd (updateMotors (sample_config False True) sample_driver
          (driving_car 100 MOTOR_STATE_RAMP_DOWN))))
     = MOTOR_STATE_STOPPED
   \<and> Trace (snd (updateMotors (sample_config True False) sample_driver (rotating_car 90 160)))
     = [ImuCall ReadCarDataFromMPU6050Fifo, MotorCall RightMotor (ChangeSpeedCompensated 40),
        MotorCall LeftMotor (ChangeSpeedCompensated 40)]
   \<and> fst (updateMotors (sample_config True False) sample_driver (rotating_car 90 160))"
proof -
  let ?s = "driving_car 100 MOTOR_STATE_RAMP_DOWN"
  have a: "\<not> USE_MPU6050_IMU (sample_config False True) \<or> CarRequestedRotationDegrees ?s = 0"
    by (simp add: sample_config_def)
  have b: "USE_MPU6050_IMU (sample_config True False)
      \<and> CarRequestedRotationDegrees (rotating_car 90 160) \<noteq> 0"
    by (simp add: sample_config_def rotating_car_refresh)
  note t1 = engine_advances_units [of "sample_config False True" ?s sample_driver,
      THEN conjunct1, rule_format, OF a, unfolded Let_def]
  note t2 = engine_advances_units [of "sample_config True False" "rotating_car 90 160"
      sample_driver, THEN conjunct2, rule_format, OF b]
  have nimu: "\<not> USE_MPU6050_IMU (sample_config False True)"
    by (simp add: sample_config_def)
  have ramp: "MotorRampState (motor_exec sample_driver UpdateMotor (rightCarMotor ?s))
      = MOTOR_STATE_STOPPED"
    by (simp add: sample_update_result sample_motor_exec_def driving_car_def sample_car_def
        sample_motor_def)
  have moving: "CarRequestedRotationDegrees
      (snd (updateMotors (sample_config True False) sample_driver (rotating_car 90 160))) \<noteq> 0"
    by (simp add: updateMotors_def sample_config_def Let_def rotating_car_refresh
        updateIMUData_frame changeSpeedCompensated_def motor_call_car_fields abs16_def)
  have tr: "Trace (snd (updateMotors (sample_config True False) sample_driver (rotating_car 90 160)))
     = [ImuCall ReadCarDataFromMPU6050Fifo, MotorCall RightMotor (ChangeSpeedCompensated 40),
        MotorCall LeftMotor (ChangeSpeedCompensated 40)]"
    by (simp add: updateMotors_def sample_config_def Let_def rotating_car_refresh
        updateIMUData_frame Trace_changeSpeedCompensated abs16_def)
  from t1 t2 nimu ramp moving tr show ?thesis
    by (simp add: driving_car_fields)
qed

text \<open>
  With 90 degrees pending, 100 half degrees measured and both units at rest, the tick
  returns true, logs only the IMU read and leaves the units as they are.
\<close>

theorem engine_advances_units_counterexample:
  "CarRequestedRotationDegrees (rotating_car 90 100) \<noteq> 0
   \<and> fst (updateMotors (sample_config True False) sample_driver (rotating_car 90 100))
   \<and> \<not> (motor_update_result sample_driver (rightCarMotor (rotating_car 90 100))
          \<or> motor_update_result sample_driver (leftCarMotor (rotating_car 90 100)))
   \<and> Trace (snd (updateMotors (sample_config True False) sample_driver (rotating_car 90 100)))
       = [ImuCall ReadCarDataFromMPU6050Fifo]
   \<and> rightCarMotor (snd (updateMotors (sample_config True False) sample_driver
         (rotating_car 90 100))) = rightCarMotor (rotating_car 90 100)
   \<and> leftCarMotor (snd (updateMotors (sample_config True False) sample_driver
         (rotating_car 90 100))) = leftCarMotor (rotating_car 90 100)"
  by (simp add: updateMotors_def sample_config_def Let_def rotating_car_refresh
      updateIMUData_frame abs16_def sample_update_result sample_motor_exec_def sample_motor_def)

section \<open>The pending distance (lines 378-405)\<close>

lemma stop_car_fields:
  "CarRequestedDistanceMillimeter (stop D md s) = CarRequestedDistanceMillimeter s"
  "CarDistanceMillimeterFromIMU (stop D md s) = CarDistanceMillimeterFromIMU s"
  by (simp_all add: stop_def Let_def motor_call_car_fields)

lemma startRampDown_facts:
  "CarRequestedDistanceMillimeter (startRampDown D s) = CarRequestedDistanceMillimeter s"
  "isStopped s \<Longrightarrow> startRampDown D s = s"
  "\<not> isStopped s \<Longrightarrow>
     Trace (startRampDown D s) =
       Trace s @ [MotorCall RightMotor StartRampDown, MotorCall LeftMotor StartRampDown]"
  "\<exists>rest. Trace (startRampDown D s) = Trace s @ rest"
  by (simp_all add: startRampDown_def motor_call_simps motor_call_car_fields)

lemma handle_distance_not_under_way:
  "\<not> right_unit_under_way s \<Longrightarrow> handleRequestedDistance cfg D s = s"
  by (simp add: handleRequestedDistance_def right_unit_under_way_def)

lemma handle_distance_reached:
  assumes "\<not> USE_ENCODER_MOTOR_CONTROL cfg" and "CarRequestedDistanceMillimeter s \<noteq> 0"
    and "right_unit_under_way s" and "CarRequestedDistanceMillimeter s \<le> CarDistanceMillimeterFromIMU s"
  shows "CarRequestedDistanceMillimeter (handleRequestedDistance cfg D s) = 0"
    and "\<exists>rest. Trace (handleRequestedDistance cfg D s) =
           Trace s @ [MotorCall RightMotor (Stop MOTOR_BRAKE), MotorCall LeftMotor (Stop MOTOR_BRAKE)]
             @ rest"
proof -
  let ?s1 = "stop D MOTOR_BRAKE (s\<lparr>CarRequestedDistanceMillimeter := 0\<rparr>)"
  have h: "handleRequestedDistance cfg D s = ?s1 \<or> handleRequestedDistance cfg D s = startRampDown D ?s1"
    using assms by (simp add: handleRequestedDistance_def right_unit_under_way_def Let_def)
  have t: "Trace ?s1 = Trace s @ [MotorCall RightMotor (Stop MOTOR_BRAKE),
      MotorCall LeftMotor (Stop MOTOR_BRAKE)]"
    by (simp add: Trace_stop)
  from h show "CarRequestedDistanceMillimeter (handleRequestedDistance cfg D s) = 0"
    by (auto simp: startRampDown_facts stop_car_fields)
  from h show "\<exists>rest. Trace (handleRequestedDistance cfg D s) =
           Trace s @ [MotorCall RightMotor (Stop MOTOR_BRAKE), MotorCall LeftMotor (Stop MOTOR_BRAKE)]
             @ rest"
  proof
    assume "handleRequestedDistance cfg D s = ?s1"
    then show ?thesis using t by simp
  next
    assume e: "handleRequestedDistance cfg D s = startRampDown D ?s1"
    obtain rest where "Trace (startRampDown D ?s1) = Trace ?s1 @ rest"
      using startRampDown_facts(4) by blast
    then show ?thesis using t e by simp
  qed
qed

lemma handle_distance_not_reached:
  assumes "\<not> USE_ENCODER_MOTOR_CONTROL cfg"
    and "right_unit_under_way s" and "CarDistanceMillimeterFromIMU s < CarRequestedDistanceMillimeter s"
  shows "handleRequestedDistance cfg D s =
     (if MotorRampState (rightCarMotor s) \<noteq> MOTOR_STATE_RAMP_DOWN
         \<and> CarRequestedDistanceMillimeter s
             \<le> CarDistanceMillimeterFromIMU s + getBrakingDistanceMillimeter cfg D s
         \<and> \<not> isStopped s
      then motor_call D LeftMotor StartRampDown (motor_call D RightMotor StartRampDown s)
      else s)"
proof -
  have "CarRequestedDistanceMillimeter s \<noteq> 0"
    using assms(3) by (auto simp: word_less_def)
  moreover have "\<not> CarRequestedDistanceMillimeter s \<le> CarDistanceMillimeterFromIMU s"
    using assms(3) by simp
  ultimately show ?thesis
    using assms(1,2)
    by (simp add: handleRequestedDistance_def right_unit_under_way_def Let_def startRampDown_def)
qed


lemma under_way_updateIMUData:
  "right_unit_under_way (updateIMUData D s) = right_unit_under_way s"
  by (simp add: right_unit_under_way_def updateIMUData_frame)

lemma handle_distance_reached_units:
  assumes "\<not> USE_ENCODER_MOTOR_CONTROL cfg" and "CarRequestedDistanceMillimeter s \<noteq> 0"
    and "right_unit_under_way s" and "CarRequestedDistanceMillimeter s \<le> CarDistanceMillimeterFromIMU s"
  shows "rightCarMotor (handleRequestedDistance cfg D s) =
      (if MotorRampState (motor_exec D (Stop MOTOR_BRAKE) (rightCarMotor s)) \<noteq> MOTOR_STATE_RAMP_DOWN
          \<and> \<not> (CurrentSpeed (motor_exec D (Stop MOTOR_BRAKE) (rightCarMotor s)) = 0
                \<and> CurrentSpeed (motor_exec D (Stop MOTOR_BRAKE) (leftCarMotor s)) = 0)
       then motor_exec D StartRampDown (motor_exec D (Stop MOTOR_BRAKE) (rightCarMotor s))
       else motor_exec D (Stop MOTOR_BRAKE) (rightCarMotor s))"
    and "leftCarMotor (handleRequestedDistance cfg D s) =
      (if MotorRampState (motor_exec D (Stop MOTOR_BRAKE) (rightCarMotor s)) \<noteq> MOTOR_STATE_RAMP_DOWN
          \<and> \<not> (CurrentSpeed (motor_exec D (Stop MOTOR_BRAKE) (rightCarMotor s)) = 0
                \<and> CurrentSpeed (motor_exec D (Stop MOTOR_BRAKE) (leftCarMotor s)) = 0)
       then motor_exec D StartRampDown (motor_exec D (Stop MOTOR_BRAKE) (leftCarMotor s))
       else motor_exec D (Stop MOTOR_BRAKE) (leftCarMotor s))"
  using assms
  by (simp_all add: handleRequestedDistance_def right_unit_under_way_def Let_def startRampDown_def
      isStopped_def motors_stop stop_car_fields motor_call_simps)

lemma updateIMUData_distance:
  "CarDistanceMillimeterFromIMU (updateIMUData D s) =
     (if imu_read_result D (IMUData s)
         \<and> AcceleratorForwardOffset (imu_exec D ReadCarDataFromMPU6050Fifo (IMUData s)) \<noteq> 0
      then abs16 (DistanceMillimeter (imu_exec D ReadCarDataFromMPU6050Fifo (IMUData s)))
      else CarDistanceMillimeterFromIMU s)"
  by (simp add: updateIMUData_def imu_call_def Let_def)

lemma updateIMUData_speed:
  "CarSpeedCmPerSecondFromIMU (updateIMUData D s) =
     (if imu_read_result D (IMUData s)
         \<and> AcceleratorForwardOffset (imu_exec D ReadCarDataFromMPU6050Fifo (IMUData s)) \<noteq> 0
      then abs16 (SpeedCmPerSecond (imu_exec D ReadCarDataFromMPU6050Fifo (IMUData s)))
      else CarSpeedCmPerSecondFromIMU s)"
  by (simp add: updateIMUData_def imu_call_def Let_def)

text \<open>
  C2, as amended. In the IMU build without encoder motors, with no rotation pending and a
  distance pending, the engine looks at the distance only while the right unit is in
  ramp-up, at drive speed or in ramp-down. Then, if the measured distance has reached the
  target, the tick brake-stops both units and clears the pending distance. If it has not,
  the tick commands the ramp-down of both units exactly when the right unit is not yet in
  ramp-down, the 16-bit sum of the measured distance and the braking distance is at least
  the target, and the units are not both at speed 0; the target stays pending. In any
  other ramp state of the right unit the tick leaves the target pending and commands
  nothing. In all cases without a stop the two units' updates follow.

  The units themselves: after the stop each unit is left as the driver's brake stop and
  then its update leave it, with the driver's ramp-down command in between when the stop
  has left the right unit out of ramp-down and a unit at a nonzero speed. When the
  target is not reached each unit is left as its update leaves it, after the driver's
  ramp-down command when the ramp-down is commanded. The measured distance and the speed
  behind the braking distance are the cached values after the IMU refresh of the same
  tick: the magnitudes of the sample just read when there is one and the offset is
  set, the old cached values otherwise; the braking distance is the square of that speed
  divided by a hundredth of the doubled deceleration.
\<close>

theorem distance_stop_and_ramp_down:
  assumes "USE_MPU6050_IMU cfg" and "\<not> USE_ENCODER_MOTOR_CONTROL cfg"
    and "CarRequestedRotationDegrees s = 0" and "CarRequestedDistanceMillimeter s \<noteq> 0"
  shows
    "(let s1 = updateIMUData D s;
          target = CarRequestedDistanceMillimeter s;
          travelled = CarDistanceMillimeterFromIMU s1;
          braking = getBrakingDistanceMillimeter cfg D s1;
          r = updateMotors cfg D s;
          tRightStopped = motor_exec D (Stop MOTOR_BRAKE) (rightCarMotor s);
          tLeftStopped = motor_exec D (Stop MOTOR_BRAKE) (leftCarMotor s)
      in (right_unit_under_way s \<and> target \<le> travelled \<longrightarrow>
            CarRequestedDistanceMillimeter (snd r) = 0
            \<and> take (length (Trace s1) + 2) (Trace (snd r)) =
                Trace s1 @ [MotorCall RightMotor (Stop MOTOR_BRAKE),
                            MotorCall LeftMotor (Stop MOTOR_BRAKE)]
            \<and> rightCarMotor (snd r) =
                motor_exec D UpdateMotor
                  (if MotorRampState tRightStopped \<noteq> MOTOR_STATE_RAMP_DOWN
                      \<and> \<not> (CurrentSpeed tRightStopped = 0 \<and> CurrentSpeed tLeftStopped = 0)
                   then motor_exec D StartRampDown tRightStopped else tRightStopped)
            \<and> leftCarMotor (snd r) =
                motor_exec D UpdateMotor
                  (if MotorRampState tRightStopped \<noteq> MOTOR_STATE_RAMP_DOWN
                      \<and> \<not> (CurrentSpeed tRightStopped = 0 \<and> CurrentSpeed tLeftStopped = 0)
                   then motor_exec D StartRampDown tLeftStopped else tLeftStopped))
       \<and> (right_unit_under_way s \<and> travelled < target \<longrightarrow>
            CarRequestedDistanceMillimeter (snd r) = target
            \<and> Trace (snd r) =
                Trace s1
                @ (if MotorRampState (rightCarMotor s) \<noteq> MOTOR_STATE_RAMP_DOWN
                      \<and> target \<le> travelled + braking \<and> \<not> isStopped s
                   then [MotorCall RightMotor StartRampDown, MotorCall LeftMotor StartRampDown]
                   else [])
                @ [MotorCall RightMotor UpdateMotor, MotorCall LeftMotor UpdateMotor]
            \<and> rightCarMotor (snd r) =
                motor_exec D UpdateMotor
                  (if MotorRampState (rightCarMotor s) \<noteq> MOTOR_STATE_RAMP_DOWN
                      \<and> target \<le> travelled + braking \<and> \<not> isStopped s
                   then motor_exec D StartRampDown (rightCarMotor s) else rightCarMotor s)
            \<and> leftCarMotor (snd r) =
                motor_exec D UpdateMotor
                  (if MotorRampState (rightCarMotor s) \<noteq> MOTOR_STATE_RAMP_DOWN
                      \<and> target \<le> travelled + braking \<and> \<not> isStopped s
                   then motor_exec D StartRampDown (leftCarMotor s) else leftCarMotor s))
       \<and> (\<not> right_unit_under_way s \<longrightarrow>
            CarRequestedDistanceMillimeter (snd r) = target
            \<and> Trace (snd r) =
                Trace s1 @ [MotorCall RightMotor UpdateMotor, MotorCall LeftMotor UpdateMotor]
            \<and> rightCarMotor (snd r) = motor_exec D UpdateMotor (rightCarMotor s)
            \<and> leftCarMotor (snd r) = motor_exec D UpdateMotor (leftCarMotor s))
       \<and> travelled =
           (if imu_read_result D (IMUData s)
               \<and> AcceleratorForwardOffset (imu_exec D ReadCarDataFromMPU6050Fifo (IMUData s)) \<noteq> 0
            then abs16 (DistanceMillimeter (imu_exec D ReadCarDataFromMPU6050Fifo (IMUData s)))
            else CarDistanceMillimeterFromIMU s)
       \<and> braking =
           (let tSpeed =
              (if imu_read_result D (IMUData s)
                  \<and> AcceleratorForwardOffset (imu_exec D ReadCarDataFromMPU6050Fifo (IMUData s)) \<noteq> 0
               then abs16 (SpeedCmPerSecond (imu_exec D ReadCarDataFromMPU6050Fifo (IMUData s)))
               else CarSpeedCmPerSecondFromIMU s)
            in (tSpeed * tSpeed) div (RAMP_DECELERATION_TIMES_2 cfg div 100))
       \<and> Trace s1 = Trace s @ [ImuCall ReadCarDataFromMPU6050Fifo])"
proof -
  let ?s1 = "updateIMUData D s"
  let ?mR = "motor_exec D (Stop MOTOR_BRAKE) (rightCarMotor s)"
  let ?mL = "motor_exec D (Stop MOTOR_BRAKE) (leftCarMotor s)"
  let ?again = "MotorRampState ?mR \<noteq> MOTOR_STATE_RAMP_DOWN
      \<and> \<not> (CurrentSpeed ?mR = 0 \<and> CurrentSpeed ?mL = 0)"
  let ?down = "MotorRampState (rightCarMotor s) \<noteq> MOTOR_STATE_RAMP_DOWN
                \<and> CarRequestedDistanceMillimeter s
                    \<le> CarDistanceMillimeterFromIMU ?s1 + getBrakingDistanceMillimeter cfg D ?s1
                \<and> \<not> isStopped s"
  have r: "updateMotors cfg D s = updateBothMotors D (handleRequestedDistance cfg D ?s1)"
    using assms(1,3) by (simp add: updateMotors_no_rotation)
  have pend: "CarRequestedDistanceMillimeter ?s1 \<noteq> 0"
    using assms(4) by (simp add: updateIMUData_frame)
  have reached: "CarRequestedDistanceMillimeter (snd (updateMotors cfg D s)) = 0
      \<and> take (length (Trace ?s1) + 2) (Trace (snd (updateMotors cfg D s))) =
          Trace ?s1 @ [MotorCall RightMotor (Stop MOTOR_BRAKE), MotorCall LeftMotor (Stop MOTOR_BRAKE)]
      \<and> rightCarMotor (snd (updateMotors cfg D s)) =
          motor_exec D UpdateMotor (if ?again then motor_exec D StartRampDown ?mR else ?mR)
      \<and> leftCarMotor (snd (updateMotors cfg D s)) =
          motor_exec D UpdateMotor (if ?again then motor_exec D StartRampDown ?mL else ?mL)"
    if a: "right_unit_under_way s"
      "CarRequestedDistanceMillimeter s \<le> CarDistanceMillimeterFromIMU ?s1"
  proof -
    have u: "right_unit_under_way ?s1"
      using a(1) by (simp add: under_way_updateIMUData)
    have le: "CarRequestedDistanceMillimeter ?s1 \<le> CarDistanceMillimeterFromIMU ?s1"
      using a(2) by (simp add: updateIMUData_frame)
    obtain rest where t: "Trace (handleRequestedDistance cfg D ?s1) =
        Trace ?s1 @ [MotorCall RightMotor (Stop MOTOR_BRAKE), MotorCall LeftMotor (Stop MOTOR_BRAKE)]
          @ rest"
      using handle_distance_reached(2) [OF assms(2) pend u le] by blast
    note units = handle_distance_reached_units [OF assms(2) pend u le, of D,
        unfolded updateIMUData_frame]
    show ?thesis
      by (simp add: r updateBothMotors_facts handle_distance_reached(1) [OF assms(2) pend u le] t
          units)
  qed
  have not_reached: "CarRequestedDistanceMillimeter (snd (updateMotors cfg D s))
        = CarRequestedDistanceMillimeter s
      \<and> Trace (snd (updateMotors cfg D s)) =
          Trace ?s1
          @ (if ?down
             then [MotorCall RightMotor StartRampDown, MotorCall LeftMotor StartRampDown]
             else [])
          @ [MotorCall RightMotor UpdateMotor, MotorCall LeftMotor UpdateMotor]
      \<and> rightCarMotor (snd (updateMotors cfg D s)) =
          motor_exec D UpdateMotor
            (if ?down then motor_exec D StartRampDown (rightCarMotor s) else rightCarMotor s)
      \<and> leftCarMotor (snd (updateMotors cfg D s)) =
          motor_exec D UpdateMotor
            (if ?down then motor_exec D StartRampDown (leftCarMotor s) else leftCarMotor s)"
    if a: "right_unit_under_way s"
      "CarDistanceMillimeterFromIMU ?s1 < CarRequestedDistanceMillimeter s"
  proof -
    have u: "right_unit_under_way ?s1"
      using a(1) by (simp add: under_way_updateIMUData)
    have lt: "CarDistanceMillimeterFromIMU ?s1 < CarRequestedDistanceMillimeter ?s1"
      using a(2) by (simp add: updateIMUData_frame)
    show ?thesis
      by (simp add: r updateBothMotors_facts handle_distance_not_reached [OF assms(2) u lt]
          updateIMUData_frame isStopped_updateIMUData motor_call_simps motor_call_car_fields)
  qed
  have idle: "CarRequestedDistanceMillimeter (snd (updateMotors cfg D s))
        = CarRequestedDistanceMillimeter s
      \<and> Trace (snd (updateMotors cfg D s)) =
          Trace ?s1 @ [MotorCall RightMotor UpdateMotor, MotorCall LeftMotor UpdateMotor]
      \<and> rightCarMotor (snd (updateMotors cfg D s)) = motor_exec D UpdateMotor (rightCarMotor s)
      \<and> leftCarMotor (snd (updateMotors cfg D s)) = motor_exec D UpdateMotor (leftCarMotor s)"
    if a: "\<not> right_unit_under_way s"
  proof -
    have "\<not> right_unit_under_way ?s1"
      using a by (simp add: under_way_updateIMUData)
    then show ?thesis
      by (simp add: r updateBothMotors_facts handle_distance_not_under_way updateIMUData_frame)
  qed
  have travelled: "CarDistanceMillimeterFromIMU ?s1 =
           (if imu_read_result D (IMUData s)
               \<and> AcceleratorForwardOffset (imu_exec D ReadCarDataFromMPU6050Fifo (IMUData s)) \<noteq> 0
            then abs16 (DistanceMillimeter (imu_exec D ReadCarDataFromMPU6050Fifo (IMUData s)))
            else CarDistanceMillimeterFromIMU s)"
    by (rule updateIMUData_distance)
  have braking: "getBrakingDistanceMillimeter cfg D ?s1 =
           (let tSpeed =
              (if imu_read_result D (IMUData s)
                  \<and> AcceleratorForwardOffset (imu_exec D ReadCarDataFromMPU6050Fifo (IMUData s)) \<noteq> 0
               then abs16 (SpeedCmPerSecond (imu_exec D ReadCarDataFromMPU6050Fifo (IMUData s)))
               else CarSpeedCmPerSecondFromIMU s)
            in (tSpeed * tSpeed) div (RAMP_DECELERATION_TIMES_2 cfg div 100))"
    using assms(2) by (simp add: getBrakingDistanceMillimeter_def updateIMUData_speed Let_def)
  have log: "Trace ?s1 = Trace s @ [ImuCall ReadCarDataFromMPU6050Fifo]"
    by (simp add: updateIMUData_frame)
  show ?thesis
    unfolding Let_def using reached not_reached idle travelled braking [unfolded Let_def] log
    by blast
qed

lemma distance_car_fields:
  "CarRequestedRotationDegrees (distance_car st aTarget aDistance aSpeed) = 0"
  "CarRequestedDistanceMillimeter (distance_car st aTarget aDistance aSpeed) = aTarget"
  "MotorRampState (rightCarMotor (distance_car st aTarget aDistance aSpeed)) = st"
  "isStopped (distance_car st aTarget aDistance aSpeed) = False"
  "Trace (distance_car st aTarget aDistance aSpeed) = []"
  "CarDistanceMillimeterFromIMU (updateIMUData sample_driver (distance_car st aTarget aDistance aSpeed))
     = aDistance"
  "getBrakingDistanceMillimeter (sample_config True False) sample_driver
     (updateIMUData sample_driver (distance_car st aTarget aDistance aSpeed))
     = (aSpeed * aSpeed) div 35"
  by (simp_all add: distance_car_def driving_car_def sample_car_def sample_motor_def sample_imu_def
      isStopped_def updateIMUData_def imu_call_def sample_driver_def Let_def
      getBrakingDistanceMillimeter_def sample_config_def)

lemma distance_car_units:
  "rightCarMotor (distance_car st aTarget aDistance aSpeed) =
     sample_motor\<lparr>CurrentSpeed := 100, MotorRampState := st,
       CurrentDirectionOrBrakeMode := DIRECTION_FORWARD\<rparr>"
  "leftCarMotor (distance_car st aTarget aDistance aSpeed) =
     sample_motor\<lparr>CurrentSpeed := 100, MotorRampState := st,
       CurrentDirectionOrBrakeMode := DIRECTION_FORWARD\<rparr>"
  by (simp_all add: distance_car_def driving_car_def sample_car_def)

lemma sample_distance_units:
  "motor_exec sample_driver (Stop MOTOR_BRAKE)
     (sample_motor\<lparr>CurrentSpeed := 100, MotorRampState := st,
        CurrentDirectionOrBrakeMode := DIRECTION_FORWARD\<rparr>) = sample_motor"
  "motor_exec sample_driver UpdateMotor sample_motor = sample_motor"
  "CurrentSpeed sample_motor = 0"
  "motor_exec sample_driver UpdateMotor
     (motor_exec sample_driver StartRampDown
        (sample_motor\<lparr>CurrentSpeed := 100, MotorRampState := MOTOR_STATE_DRIVE_SPEED,
           CurrentDirectionOrBrakeMode := DIRECTION_FORWARD\<rparr>)) =
     sample_motor\<lparr>CurrentDirectionOrBrakeMode := DIRECTION_FORWARD\<rparr>"
  "motor_exec sample_driver UpdateMotor
     (sample_motor\<lparr>CurrentSpeed := 100, MotorRampState := MOTOR_STATE_DRIVE_SPEED,
        CurrentDirectionOrBrakeMode := DIRECTION_FORWARD\<rparr>) =
     sample_motor\<lparr>CurrentSpeed := 100, MotorRampState := MOTOR_STATE_DRIVE_SPEED,
        CurrentDirectionOrBrakeMode := DIRECTION_FORWARD\<rparr>"
  "motor_exec sample_driver UpdateMotor
     (sample_motor\<lparr>CurrentSpeed := 100, MotorRampState := MOTOR_STATE_START,
        CurrentDirectionOrBrakeMode := DIRECTION_FORWARD\<rparr>) =
     sample_motor\<lparr>CurrentSpeed := 100, MotorRampState := MOTOR_STATE_RAMP_UP,
        CurrentDirectionOrBrakeMode := DIRECTION_FORWARD\<rparr>"
  by (simp_all add: sample_driver_def sample_motor_exec_def sample_motor_def)

text \<open>
  Target 500 mm at 35 cm/s (braking distance 35 mm): at 500 the tick stops, at 470 it starts
  the ramp-down, at 460 it does not; in state start nothing is commanded. The sample unit
  is at speed 0 after the stop and after the update that follows the ramp-down, and
  keeps its speed of 100 otherwise.
\<close>

theorem distance_stop_and_ramp_down_witness:
  "CarRequestedDistanceMillimeter
      (snd (updateMotors (sample_config True False) sample_driver
              (distance_car MOTOR_STATE_DRIVE_SPEED 500 500 35))) = 0
   \<and> take 3 (Trace (snd (updateMotors (sample_config True False) sample_driver
              (distance_car MOTOR_STATE_DRIVE_SPEED 500 500 35)))) =
       [ImuCall ReadCarDataFromMPU6050Fifo, MotorCall RightMotor (Stop MOTOR_BRAKE),
        MotorCall LeftMotor (Stop MOTOR_BRAKE)]
   \<and> Trace (snd (updateMotors (sample_config True False) sample_driver
              (distance_car MOTOR_STATE_DRIVE_SPEED 500 470 35))) =
       [ImuCall ReadCarDataFromMPU6050Fifo, MotorCall RightMotor StartRampDown,
        MotorCall LeftMotor StartRampDown, MotorCall RightMotor UpdateMotor,
        MotorCall LeftMotor UpdateMotor]
   \<and> Trace (snd (updateMotors (sample_config True False) sample_driver
              (distance_car MOTOR_STATE_DRIVE_SPEED 500 460 35))) =
       [ImuCall ReadCarDataFromMPU6050Fifo, MotorCall RightMotor UpdateMotor,
        MotorCall LeftMotor UpdateMotor]
   \<and> Trace (snd (updateMotors (sample_config True False) sample_driver
              (distance_car MOTOR_STATE_START 500 470 35))) =
       [ImuCall ReadCarDataFromMPU6050Fifo, MotorCall RightMotor UpdateMotor,
        MotorCall LeftMotor UpdateMotor]
   \<and> rightCarMotor (snd (updateMotors (sample_config True False) sample_driver
              (distance_car MOTOR_STATE_DRIVE_SPEED 500 500 35))) = sample_motor
   \<and> leftCarMotor (snd (updateMotors (sample_config True False) sample_driver
              (distance_car MOTOR_STATE_DRIVE_SPEED 500 500 35))) = sample_motor
   \<and> rightCarMotor (snd (updateMotors (sample_config True False) sample_driver
              (distance_car MOTOR_STATE_DRIVE_SPEED 500 470 35))) =
       sample_motor\<lparr>CurrentDirectionOrBrakeMode := DIRECTION_FORWARD\<rparr>
   \<and> leftCarMotor (snd (updateMotors (sample_config True False) sample_driver
              (distance_car MOTOR_STATE_DRIVE_SPEED 500 470 35))) =
       sample_motor\<lparr>CurrentDirectionOrBrakeMode := DIRECTION_FORWARD\<rparr>
   \<and> rightCarMotor (snd (updateMotors (sample_config True False) sample_driver
              (distance_car MOTOR_STATE_DRIVE_SPEED 500 460 35))) =
       sample_motor\<lparr>CurrentSpeed := 100, MotorRampState := MOTOR_STATE_DRIVE_SPEED,
         CurrentDirectionOrBrakeMode := DIRECTION_FORWARD\<rparr>
   \<and> rightCarMotor (snd (updateMotors (sample_config True False) sample_driver
              (distance_car MOTOR_STATE_START 500 470 35))) =
       sample_motor\<lparr>CurrentSpeed := 100, MotorRampState := MOTOR_STATE_RAMP_UP,
         CurrentDirectionOrBrakeMode := DIRECTION_FORWARD\<rparr>"
proof -
  let ?cfg = "sample_config True False"
  have imu: "USE_MPU6050_IMU ?cfg" and enc: "\<not> USE_ENCODER_MOTOR_CONTROL ?cfg"
    by (simp_all add: sample_config_def)
  have rot: "CarRequestedRotationDegrees (distance_car st 500 d 35) = 0" for st d
    by (simp add: distance_car_fields)
  have pend: "CarRequestedDistanceMillimeter (distance_car st 500 d 35) \<noteq> 0" for st d
    by (simp add: distance_car_fields)
  note t = distance_stop_and_ramp_down [OF imu enc rot pend, unfolded Let_def]
  show ?thesis
    using t [of MOTOR_STATE_DRIVE_SPEED 500 sample_driver]
      t [of MOTOR_STATE_DRIVE_SPEED 470 sample_driver]
      t [of MOTOR_STATE_DRIVE_SPEED 460 sample_driver]
      t [of MOTOR_STATE_START 470 sample_driver]
    by (simp add: distance_car_fields right_unit_under_way_def updateIMUData_frame
        numeral_3_eq_3 distance_car_units sample_distance_units)
qed

text \<open>
  The right unit in state stopped while the car drives at 100, target 500, measured 600:
  the tick only updates the units, the speed and the pending target stay.
\<close>

theorem distance_stop_and_ramp_down_counterexample:
  "CarRequestedRotationDegrees (distance_car MOTOR_STATE_STOPPED 500 600 35) = 0
   \<and> CarRequestedDistanceMillimeter (distance_car MOTOR_STATE_STOPPED 500 600 35) = 500
   \<and> CarDistanceMillimeterFromIMU
        (updateIMUData sample_driver (distance_car MOTOR_STATE_STOPPED 500 600 35)) = 600
   \<and> Trace (snd (updateMotors (sample_config True False) sample_driver
              (distance_car MOTOR_STATE_STOPPED 500 600 35))) =
       [ImuCall ReadCarDataFromMPU6050Fifo, MotorCall RightMotor UpdateMotor,
        MotorCall LeftMotor UpdateMotor]
   \<and> CarRequestedDistanceMillimeter
        (snd (updateMotors (sample_config True False) sample_driver
                (distance_car MOTOR_STATE_STOPPED 500 600 35))) = 500
   \<and> CurrentSpeed (rightCarMotor
        (snd (updateMotors (sample_config True False) sample_driver
                (distance_car MOTOR_STATE_STOPPED 500 600 35)))) = 100"
proof -
  let ?cfg = "sample_config True False" and ?s = "distance_car MOTOR_STATE_STOPPED 500 600 35"
  have "\<not> right_unit_under_way (updateIMUData sample_driver ?s)"
    by (simp add: right_unit_under_way_def updateIMUData_frame distance_car_fields)
  then have "updateMotors ?cfg sample_driver ?s
      = updateBothMotors sample_driver (updateIMUData sample_driver ?s)"
    by (simp add: updateMotors_no_rotation distance_car_fields sample_config_def
        handle_distance_not_under_way)
  moreover have "CurrentSpeed (motor_exec sample_driver UpdateMotor (rightCarMotor ?s)) = 100"
    by (simp add: sample_update_result sample_motor_exec_def distance_car_def driving_car_def
        sample_car_def sample_motor_def)
  ultimately show ?thesis
    by (simp add: updateBothMotors_facts updateIMUData_frame distance_car_fields)
qed

section \<open>Rotation (lines 584-701)\<close>

lemma Trace_imu_call: "Trace (imu_call D c s) = Trace s @ [ImuCall c]"
  by (simp add: imu_call_def)

lemma get_motor_reset:
  "get_motor sd ((imu_call D c s)\<lparr>CarRequestedRotationDegrees := d\<rparr>) = get_motor sd s"
  by (cases sd) (simp_all add: get_motor_def imu_call_def)

lemma get_motor_motor_call:
  "get_motor sd (motor_call D sd' c s) =
     (if sd = sd' then motor_exec D c (get_motor sd s) else get_motor sd s)"
  by (cases sd; cases sd'; simp add: get_motor_def motor_call_def set_motor_def)

lemma startRotate_car_fields:
  "IMUData (motor_call D sd c s) = IMUData s"
  "IMUData ((imu_call D ic s)\<lparr>CarRequestedRotationDegrees := d\<rparr>) = imu_exec D ic (IMUData s)"
  by (cases sd; simp add: motor_call_def set_motor_def imu_call_def)+

text \<open>
  C4. \<open>startRotate\<close> takes the right unit as the outer side and the left unit as the
  inner side for non-negative degrees, and the left unit as outer and the right unit as
  inner for negative degrees; the distance is computed from the magnitude. Forward
  gives the whole distance to the outer side and 0 to the inner side, backward 0 to the
  outer and the whole distance to the inner side, in place half of it (rounded down) to
  both; the outer side is always commanded forward and the inner side backward. Without
  IMU both units get their distance command: each unit is left as the driver's distance
  command, with that unit's turn speed, distance and direction, leaves it. With IMU the
  distance is 2000, the IMU's car data are reset, the rotation is recorded as pending,
  and only a side with a nonzero distance gets its speed command: that unit is left as
  the driver's compensated speed command leaves it, the other unit as it was.
  For -32768 degrees the negation overflows (undefined in C); the distance is then
  computed from the wrapped value.
\<close>

theorem start_rotate_distance_split:
  "(let outer = (if 0 \<le> sint aRotationDegrees then RightMotor else LeftMotor);
        inner = (if 0 \<le> sint aRotationDegrees then LeftMotor else RightMotor);
        total = (if USE_MPU6050_IMU cfg then 2000
                 else DegreeToMillimeter cfg
                        (if 0 \<le> sint aRotationDegrees then aRotationDegrees
                         else - aRotationDegrees));
        vOuter = turn_speed aUseSlowSpeed (get_motor outer s);
        vInner = turn_speed aUseSlowSpeed (get_motor inner s);
        r = startRotate cfg D aRotationDegrees aTurnDirection aUseSlowSpeed s;
        new = drop (length (Trace s)) (Trace r)
    in (\<not> USE_MPU6050_IMU cfg \<longrightarrow>
          (aTurnDirection = TURN_FORWARD \<longrightarrow>
             new = [MotorCall outer (StartGoDistanceMillimeter vOuter total DIRECTION_FORWARD),
                    MotorCall inner (StartGoDistanceMillimeter vInner 0 DIRECTION_BACKWARD)]
             \<and> get_motor outer r =
                 motor_exec D (StartGoDistanceMillimeter vOuter total DIRECTION_FORWARD)
                   (get_motor outer s)
             \<and> get_motor inner r =
                 motor_exec D (StartGoDistanceMillimeter vInner 0 DIRECTION_BACKWARD)
                   (get_motor inner s))
        \<and> (aTurnDirection = TURN_BACKWARD \<longrightarrow>
             new = [MotorCall outer (StartGoDistanceMillimeter vOuter 0 DIRECTION_FORWARD),
                    MotorCall inner (StartGoDistanceMillimeter vInner total DIRECTION_BACKWARD)]
             \<and> get_motor outer r =
                 motor_exec D (StartGoDistanceMillimeter vOuter 0 DIRECTION_FORWARD)
                   (get_motor outer s)
             \<and> get_motor inner r =
                 motor_exec D (StartGoDistanceMillimeter vInner total DIRECTION_BACKWARD)
                   (get_motor inner s))
        \<and> (aTurnDirection = TURN_IN_PLACE \<longrightarrow>
             new = [MotorCall outer
                      (StartGoDistanceMillimeter vOuter (total div 2) DIRECTION_FORWARD),
                    MotorCall inner
                      (StartGoDistanceMillimeter vInner (total div 2) DIRECTION_BACKWARD)]
             \<and> get_motor outer r =
                 motor_exec D (StartGoDistanceMillimeter vOuter (total div 2) DIRECTION_FORWARD)
                   (get_motor outer s)
             \<and> get_motor inner r =
                 motor_exec D (StartGoDistanceMillimeter vInner (total div 2) DIRECTION_BACKWARD)
                   (get_motor inner s))
        \<and> IMUData r = IMUData s
        \<and> CarRequestedRotationDegrees r = CarRequestedRotationDegrees s)
     \<and> (USE_MPU6050_IMU cfg \<longrightarrow>
          (aTurnDirection = TURN_FORWARD \<longrightarrow>
             new = [ImuCall ResetCarData,
                    MotorCall outer (SetSpeedCompensated vOuter DIRECTION_FORWARD)]
             \<and> get_motor outer r =
                 motor_exec D (SetSpeedCompensated vOuter DIRECTION_FORWARD) (get_motor outer s)
             \<and> get_motor inner r = get_motor inner s)
        \<and> (aTurnDirection = TURN_BACKWARD \<longrightarrow>
             new = [ImuCall ResetCarData,
                    MotorCall inner (SetSpeedCompensated vInner DIRECTION_BACKWARD)]
             \<and> get_motor outer r = get_motor outer s
             \<and> get_motor inner r =
                 motor_exec D (SetSpeedCompensated vInner DIRECTION_BACKWARD) (get_motor inner s))
        \<and> (aTurnDirection = TURN_IN_PLACE \<longrightarrow>
             new = [ImuCall ResetCarData,
                    MotorCall outer (SetSpeedCompensated vOuter DIRECTION_FORWARD),
                    MotorCall inner (SetSpeedCompensated vInner DIRECTION_BACKWARD)]
             \<and> get_motor outer r =
                 motor_exec D (SetSpeedCompensated vOuter DIRECTION_FORWARD) (get_motor outer s)
             \<and> get_motor inner r =
                 motor_exec D (SetSpeedCompensated vInner DIRECTION_BACKWARD) (get_motor inner s))
        \<and> IMUData r = imu_exec D ResetCarData (IMUData s)
        \<and> CarRequestedRotationDegrees r = aRotationDegrees)
     \<and> unat (total div 2) = unat total div 2
     \<and> get_motor RightMotor r = rightCarMotor r \<and> get_motor LeftMotor r = leftCarMotor r
     \<and> get_motor RightMotor s = rightCarMotor s \<and> get_motor LeftMotor s = leftCarMotor s)"
  unfolding Let_def
  by (cases aTurnDirection)
     (simp_all add: startRotate_def Let_def turn_speed_def Trace_motor_call Trace_imu_call
        get_motor_reset motor_call_car_fields unat_div get_motor_motor_call
        startRotate_car_fields,
      simp_all add: get_motor_def motor_call_simps imu_call_def)


lemma sample_car_turn:
  "Trace sample_car = []"
  "turn_speed True (get_motor sd sample_car) = 60"
  "USE_MPU6050_IMU (sample_config i e) = i"
  "DegreeToMillimeter (sample_config i e) d = 2 * d"
  by (cases sd; simp add: sample_car_def sample_motor_def turn_speed_def get_motor_def
      sample_config_def)+

lemma sample_car_turn_units:
  "rightCarMotor sample_car = sample_motor"
  "leftCarMotor sample_car = sample_motor"
  "turn_speed True sample_motor = 60"
  "motor_exec sample_driver (StartGoDistanceMillimeter 60 180 d) sample_motor =
     sample_motor\<lparr>CurrentSpeed := 60, MotorRampState := MOTOR_STATE_START,
       CurrentDirectionOrBrakeMode := d\<rparr>"
  "motor_exec sample_driver (StartGoDistanceMillimeter 60 90 d) sample_motor =
     sample_motor\<lparr>CurrentSpeed := 60, MotorRampState := MOTOR_STATE_START,
       CurrentDirectionOrBrakeMode := d\<rparr>"
  "motor_exec sample_driver (StartGoDistanceMillimeter 60 0 d) sample_motor = sample_motor"
  "motor_exec sample_driver (SetSpeedCompensated 60 d) sample_motor =
     sample_motor\<lparr>CurrentSpeed := 60, CurrentDirectionOrBrakeMode := d\<rparr>"
  by (simp_all add: sample_car_def sample_motor_def turn_speed_def sample_driver_def
      sample_motor_exec_def)

text \<open>
  90 and -90 degrees at the sample car, where 90 degrees are 180 mm and the slow turn speed
  is 60: the unit with a distance starts at speed 60 in its direction, the unit with
  distance 0 stays as it is.
\<close>

theorem start_rotate_distance_split_witness:
  "Trace (startRotate (sample_config False False) sample_driver 90 TURN_FORWARD True sample_car) =
     [MotorCall RightMotor (StartGoDistanceMillimeter 60 180 DIRECTION_FORWARD),
      MotorCall LeftMotor (StartGoDistanceMillimeter 60 0 DIRECTION_BACKWARD)]
   \<and> rightCarMotor
       (startRotate (sample_config False False) sample_driver 90 TURN_FORWARD True sample_car) =
     sample_motor\<lparr>CurrentSpeed := 60, MotorRampState := MOTOR_STATE_START,
       CurrentDirectionOrBrakeMode := DIRECTION_FORWARD\<rparr>
   \<and> leftCarMotor
       (startRotate (sample_config False False) sample_driver 90 TURN_FORWARD True sample_car) =
     sample_motor
   \<and> Trace (startRotate (sample_config False False) sample_driver (- 90) TURN_FORWARD True
        sample_car) =
     [MotorCall LeftMotor (StartGoDistanceMillimeter 60 180 DIRECTION_FORWARD),
      MotorCall RightMotor (StartGoDistanceMillimeter 60 0 DIRECTION_BACKWARD)]
   \<and> leftCarMotor
       (startRotate (sample_config False False) sample_driver (- 90) TURN_FORWARD True sample_car) =
     sample_motor\<lparr>CurrentSpeed := 60, MotorRampState := MOTOR_STATE_START,
       CurrentDirectionOrBrakeMode := DIRECTION_FORWARD\<rparr>
   \<and> Trace (startRotate (sample_config False False) sample_driver 90 TURN_BACKWARD True
        sample_car) =
     [MotorCall RightMotor (StartGoDistanceMillimeter 60 0 DIRECTION_FORWARD),
      MotorCall LeftMotor (StartGoDistanceMillimeter 60 180 DIRECTION_BACKWARD)]
   \<and> leftCarMotor
       (startRotate (sample_config False False) sample_driver 90 TURN_BACKWARD True sample_car) =
     sample_motor\<lparr>CurrentSpeed := 60, MotorRampState := MOTOR_STATE_START,
       CurrentDirectionOrBrakeMode := DIRECTION_BACKWARD\<rparr>
   \<and> Trace (startRotate (sample_config False False) sample_driver 90 TURN_IN_PLACE True
        sample_car) =
     [MotorCall RightMotor (StartGoDistanceMillimeter 60 90 DIRECTION_FORWARD),
      MotorCall LeftMotor (StartGoDistanceMillimeter 60 90 DIRECTION_BACKWARD)]
   \<and> Trace (startRotate (sample_config True False) sample_driver (- 90) TURN_IN_PLACE True
        sample_car) =
     [ImuCall ResetCarData,
      MotorCall LeftMotor (SetSpeedCompensated 60 DIRECTION_FORWARD),
      MotorCall RightMotor (SetSpeedCompensated 60 DIRECTION_BACKWARD)]
   \<and> leftCarMotor
       (startRotate (sample_config True False) sample_driver (- 90) TURN_IN_PLACE True sample_car) =
     sample_motor\<lparr>CurrentSpeed := 60, CurrentDirectionOrBrakeMode := DIRECTION_FORWARD\<rparr>
   \<and> rightCarMotor
       (startRotate (sample_config True False) sample_driver (- 90) TURN_IN_PLACE True sample_car) =
     sample_motor\<lparr>CurrentSpeed := 60, CurrentDirectionOrBrakeMode := DIRECTION_BACKWARD\<rparr>
   \<and> CarRequestedRotationDegrees
       (startRotate (sample_config True False) sample_driver (- 90) TURN_IN_PLACE True sample_car) =
     - 90"
  using start_rotate_distance_split [of 90 "sample_config False False" True sample_car
      sample_driver TURN_FORWARD]
    start_rotate_distance_split [of "- 90" "sample_config False False" True sample_car
      sample_driver TURN_FORWARD]
    start_rotate_distance_split [of 90 "sample_config False False" True sample_car
      sample_driver TURN_BACKWARD]
    start_rotate_distance_split [of 90 "sample_config False False" True sample_car
      sample_driver TURN_IN_PLACE]
    start_rotate_distance_split [of "- 90" "sample_config True False" True sample_car
      sample_driver TURN_IN_PLACE]
  by (simp add: Let_def get_motor_def sample_car_turn(1,3,4) sample_car_turn_units)

section \<open>The blocking rotation\<close>

lemma Trace_grows_handle:
  "length (Trace s) \<le> length (Trace (handleRequestedDistance cfg D s))"
  by (simp add: handleRequestedDistance_def Let_def startRampDown_def Trace_stop motor_call_simps)

lemma Trace_grows_updateMotors:
  "length (Trace s) < length (Trace (snd (updateMotors cfg D s)))"
proof (cases "\<not> USE_MPU6050_IMU cfg \<or> CarRequestedRotationDegrees s = 0")
  case True
  have "length (Trace s) \<le> length (Trace (updateIMUData D s))"
    by (simp add: updateIMUData_frame)
  also have "\<dots> \<le> length (Trace (handleRequestedDistance cfg D (updateIMUData D s)))"
    by (rule Trace_grows_handle)
  finally show ?thesis
    by (simp add: updateMotors_no_rotation [OF True] updateBothMotors_facts)
next
  case False
  then show ?thesis
    by (simp add: updateMotors_def Let_def updateIMUData_frame Trace_stop
        Trace_changeSpeedCompensated)
qed

lemma Trace_grows_callback: "length (Trace s) \<le> length (Trace (invoke_callback cb s))"
  by (cases cb) (simp_all add: invoke_callback_def)

lemma Trace_grows_tick:
  "length (Trace s) < length (Trace (snd (updateMotorsWithCallback cfg D cb s)))"
  using Trace_grows_callback [of s cb]
    Trace_grows_updateMotors [of "invoke_callback cb s" cfg D]
  by (simp add: updateMotorsWithCallback_def)

lemma Trace_grows_wait:
  assumes "waitUntilStopped cfg D cb s = Some s'"
  shows "length (Trace s) < length (Trace s')"
proof (rule waitUntilStopped.raw_induct
    [where P = "\<lambda>cfg D cb s s'. length (Trace s) < length (Trace s')", OF _ assms])
  fix w :: "config \<Rightarrow> driver \<Rightarrow> (car \<Rightarrow> car) option \<Rightarrow> car \<Rightarrow> car option"
  fix cfg D cb s s'
  assume IH: "\<And>cfg D cb s s'. w cfg D cb s = Some s' \<Longrightarrow> length (Trace s) < length (Trace s')"
  assume step: "(if fst (updateMotorsWithCallback cfg D cb s)
      then w cfg D cb (snd (updateMotorsWithCallback cfg D cb s))
      else Some ((snd (updateMotorsWithCallback cfg D cb s))
             \<lparr>CarDirectionOrBrakeMode :=
                CurrentDirectionOrBrakeMode
                  (rightCarMotor (snd (updateMotorsWithCallback cfg D cb s)))\<rparr>)) = Some s'"
  show "length (Trace s) < length (Trace s')"
  proof (cases "fst (updateMotorsWithCallback cfg D cb s)")
    case True
    with step have "w cfg D cb (snd (updateMotorsWithCallback cfg D cb s)) = Some s'"
      by simp
    then have "length (Trace (snd (updateMotorsWithCallback cfg D cb s))) < length (Trace s')"
      by (rule IH)
    with Trace_grows_tick [of s cfg D cb] show ?thesis
      by simp
  next
    case False
    with step have "s' = (snd (updateMotorsWithCallback cfg D cb s))
        \<lparr>CarDirectionOrBrakeMode :=
           CurrentDirectionOrBrakeMode (rightCarMotor (snd (updateMotorsWithCallback cfg D cb s)))\<rparr>"
      by simp
    with Trace_grows_tick [of s cfg D cb] show ?thesis
      by simp
  qed
qed

lemma Trace_grows_startRotate:
  "length (Trace s) \<le> length (Trace (startRotate cfg D aRotationDegrees aTurnDirection aUseSlowSpeed s))"
  by (simp add: startRotate_def Let_def Trace_motor_call Trace_imu_call)

text \<open>
  C10. The blocking rotation with 0 degrees returns at once with the state it was given:
  nothing is called on the units or the IMU, no time passes, the callback and the update
  engine do not run (each tick of the engine adds to the log). With any other number of
  degrees the rotation, if it returns, returns a state with a longer log.
\<close>

theorem rotate_zero_is_no_op:
  "rotate_car cfg D 0 aTurnDirection aUseSlowSpeed aLoopCallback s = Some s
   \<and> (aRotationDegrees \<noteq> 0 \<longrightarrow>
        rotate_car cfg D aRotationDegrees aTurnDirection aUseSlowSpeed aLoopCallback s \<noteq> Some s)"
proof (intro conjI impI)
  show "rotate_car cfg D 0 aTurnDirection aUseSlowSpeed aLoopCallback s = Some s"
    by (simp add: rotate_car_def)
next
  assume nz: "aRotationDegrees \<noteq> 0"
  show "rotate_car cfg D aRotationDegrees aTurnDirection aUseSlowSpeed aLoopCallback s \<noteq> Some s"
  proof
    assume "rotate_car cfg D aRotationDegrees aTurnDirection aUseSlowSpeed aLoopCallback s = Some s"
    then have "waitUntilStopped cfg D aLoopCallback
        (startRotate cfg D aRotationDegrees aTurnDirection aUseSlowSpeed s) = Some s"
      using nz by (simp add: rotate_car_def)
    then have "length (Trace (startRotate cfg D aRotationDegrees aTurnDirection aUseSlowSpeed s))
        < length (Trace s)"
      by (rule Trace_grows_wait)
    with Trace_grows_startRotate [of s cfg D aRotationDegrees aTurnDirection aUseSlowSpeed]
    show False by simp
  qed
qed

text \<open>
  While driving at 100: 0 degrees return the same state, 90 degrees do not.
\<close>

theorem rotate_zero_is_no_op_witness:
  "rotate_car (sample_config True False) sample_driver 0 TURN_IN_PLACE True None
       (driving_car 100 MOTOR_STATE_DRIVE_SPEED)
     = Some (driving_car 100 MOTOR_STATE_DRIVE_SPEED)
   \<and> rotate_car (sample_config True False) sample_driver 90 TURN_IN_PLACE True None
       (driving_car 100 MOTOR_STATE_DRIVE_SPEED)
     \<noteq> Some (driving_car 100 MOTOR_STATE_DRIVE_SPEED)"
  using rotate_zero_is_no_op [of "sample_config True False" sample_driver TURN_IN_PLACE True None
      "driving_car 100 MOTOR_STATE_DRIVE_SPEED" 90]
  by simp

section \<open>Calibration (lines 738-812)\<close>














lemma prefix_motor_call: "prefix (Trace s) (Trace (motor_call D sd c s))"
  by (simp add: Trace_motor_call)












lemma wait_round_encoder:
  assumes enc: "USE_ENCODER_MOTOR_CONTROL cfg"
  shows "calibrate_wait cfg D cb t0 s =
     (if isStopped (invoke_callback cb s) then Some (True, invoke_callback cb s)
      else if Millis (delay D 10 (invoke_callback cb s)) - t0 \<le> 200
      then calibrate_wait cfg D cb t0 (delay D 10 (invoke_callback cb s))
      else Some (False, delay D 10 (invoke_callback cb s)))"
  using enc by (subst calibrate_wait.simps) simp

























lemma both_sides:
  "(\<forall>sd. P (get_motor sd s)) \<longleftrightarrow> P (rightCarMotor s) \<and> P (leftCarMotor s)"
proof
  assume a: "\<forall>sd. P (get_motor sd s)"
  from a [rule_format, of RightMotor] a [rule_format, of LeftMotor]
  show "P (rightCarMotor s) \<and> P (leftCarMotor s)"
    by (simp add: get_motor_def)
next
  assume a: "P (rightCarMotor s) \<and> P (leftCarMotor s)"
  show "\<forall>sd. P (get_motor sd s)"
  proof
    fix sd
    from a show "P (get_motor sd s)"
      by (cases sd) (simp_all add: get_motor_def)
  qed
qed




















end
